theory Spec2Isabelle
  imports Complex_Main
begin

section \<open>Python values\<close>

subsection \<open>Floats\<close>

text \<open>
  A Python float is either a finite number or one of the three non-finite values that
  \<^verbatim>\<open>float("inf")\<close>, \<^verbatim>\<open>float("-inf")\<close> and \<^verbatim>\<open>float("nan")\<close> give (the command-line parser
  accepts all three for an option of \<^verbatim>\<open>type=float\<close>). Finite values are idealised as real
  numbers: arithmetic on them is exact, without rounding or overflow. Arithmetic on the
  non-finite values follows IEEE 754; Python's float \<^verbatim>\<open>+\<close>, \<^verbatim>\<open>-\<close> and \<^verbatim>\<open>*\<close> never raise.
\<close>

datatype pyfloat = Fin real | PInf | NInf | NaN

instantiation pyfloat :: "{uminus, plus, minus, times}"
begin

fun uminus_pyfloat :: "pyfloat \<Rightarrow> pyfloat" where
  "uminus_pyfloat (Fin a) = Fin (- a)"
| "uminus_pyfloat PInf = NInf"
| "uminus_pyfloat NInf = PInf"
| "uminus_pyfloat NaN = NaN"

fun plus_pyfloat :: "pyfloat \<Rightarrow> pyfloat \<Rightarrow> pyfloat" where
  "plus_pyfloat (Fin a) (Fin b) = Fin (a + b)"
| "plus_pyfloat NaN b = NaN"
| "plus_pyfloat a NaN = NaN"
| "plus_pyfloat PInf NInf = NaN"
| "plus_pyfloat NInf PInf = NaN"
| "plus_pyfloat PInf b = PInf"
| "plus_pyfloat a PInf = PInf"
| "plus_pyfloat NInf b = NInf"
| "plus_pyfloat a NInf = NInf"

definition minus_pyfloat :: "pyfloat \<Rightarrow> pyfloat \<Rightarrow> pyfloat" where
  "minus_pyfloat a b = a + (- b)"

fun times_pyfloat :: "pyfloat \<Rightarrow> pyfloat \<Rightarrow> pyfloat" where
  "times_pyfloat (Fin a) (Fin b) = Fin (a * b)"
| "times_pyfloat NaN b = NaN"
| "times_pyfloat a NaN = NaN"
| "times_pyfloat (Fin a) PInf = (if a = 0 then NaN else if 0 < a then PInf else NInf)"
| "times_pyfloat (Fin a) NInf = (if a = 0 then NaN else if 0 < a then NInf else PInf)"
| "times_pyfloat PInf (Fin b) = (if b = 0 then NaN else if 0 < b then PInf else NInf)"
| "times_pyfloat NInf (Fin b) = (if b = 0 then NaN else if 0 < b then NInf else PInf)"
| "times_pyfloat PInf PInf = PInf"
| "times_pyfloat PInf NInf = NInf"
| "times_pyfloat NInf PInf = NInf"
| "times_pyfloat NInf NInf = PInf"

instance ..

end

fun is_inf :: "pyfloat \<Rightarrow> bool" where
  "is_inf PInf = True"
| "is_inf NInf = True"
| "is_inf x = False"

subsection \<open>Exceptions\<close>

datatype error = ValueError

datatype 'a outcome = Returned 'a | Raised error

text \<open>
  \<^verbatim>\<open>math.radians\<close> multiplies by \<open>pi / 180\<close>; \<^verbatim>\<open>math.cos\<close> and \<^verbatim>\<open>math.sin\<close> raise
  \<^verbatim>\<open>ValueError("math domain error")\<close> on an infinite argument and return nan on nan.
\<close>

definition math_radians :: "pyfloat \<Rightarrow> pyfloat" where
  "math_radians x = x * Fin (pi / 180)"

fun math_cos :: "pyfloat \<Rightarrow> pyfloat outcome" where
  "math_cos (Fin a) = Returned (Fin (cos a))"
| "math_cos NaN = Returned NaN"
| "math_cos PInf = Raised ValueError"
| "math_cos NInf = Raised ValueError"

fun math_sin :: "pyfloat \<Rightarrow> pyfloat outcome" where
  "math_sin (Fin a) = Returned (Fin (sin a))"
| "math_sin NaN = Returned NaN"
| "math_sin PInf = Raised ValueError"
| "math_sin NInf = Raised ValueError"

text \<open>The value of \<^verbatim>\<open>math.cos(math.radians(a))\<close> where it returns (used to state facts).\<close>

definition cos_of_degrees :: "pyfloat \<Rightarrow> pyfloat" where
  "cos_of_degrees a = (case math_cos (math_radians a) of Returned c \<Rightarrow> c | Raised e \<Rightarrow> NaN)"

definition sin_of_degrees :: "pyfloat \<Rightarrow> pyfloat" where
  "sin_of_degrees a = (case math_sin (math_radians a) of Returned s \<Rightarrow> s | Raised e \<Rightarrow> NaN)"

subsection \<open>Decimal text of an integer\<close>

definition digit_char :: "nat \<Rightarrow> char" where
  "digit_char k = ''0123456789'' ! k"

fun str_nat :: "nat \<Rightarrow> string" where
  "str_nat n = (if n < 10 then [digit_char n] else str_nat (n div 10) @ [digit_char (n mod 10)])"

declare str_nat.simps [simp del]

definition str_int :: "int \<Rightarrow> string" where
  "str_int i = (if i < 0 then ''-'' @ str_nat (nat (- i)) else str_nat (nat i))"

section \<open>The document\<close>

text \<open>
  An attribute or style value is a text. \<open>Number x\<close> stands for the text \<^verbatim>\<open>str(x)\<close> of the
  float \<open>x\<close>, whose digits the model does not compute.
\<close>

datatype attr = Text string | Number pyfloat

type_synonym style = "(string \<times> attr) list"

type_synonym point = "pyfloat \<times> pyfloat"

text \<open>
  The path data of a teardrop is the text \<^verbatim>\<open>M p C p p p C p p p C p p p C p p p Z\<close>; the model
  keeps the commands and their coordinate pairs, in the order the text has them.
\<close>

datatype path_cmd = MoveTo point | CurveTo point point point | ClosePath

text \<open>The coordinate pairs a path text emits, in order.\<close>

fun cmd_points :: "path_cmd \<Rightarrow> point list" where
  "cmd_points (MoveTo p) = [p]"
| "cmd_points (CurveTo p q r) = [p, q, r]"
| "cmd_points ClosePath = []"

definition path_points :: "path_cmd list \<Rightarrow> point list" where
  "path_points cmds = concat (map cmd_points cmds)"

datatype transform = Rotate pyfloat pyfloat pyfloat

datatype node =
    Ellipse (el_cx: pyfloat) (el_cy: pyfloat) (el_rx: pyfloat) (el_ry: pyfloat) (node_style: style)
  | PathElement (path_d: "path_cmd list") (node_style: style) (path_transform: "transform option")
  | Group (label: string) (children: "node list")

datatype stop = Stop (stop_offset: string) (stop_style: style)

datatype gradient =
    LinearGradient (gradient_id: string) (stops: "stop list")
  | RadialGradient (gradient_id: string) (grad_cx: string) (grad_cy: string) (grad_r: string)
      (stops: "stop list")

text \<open>
  The state the extension works on: the process-wide random generator (the sequence of
  values \<^verbatim>\<open>random.random()\<close> would return, each in \<open>[0, 1)\<close>, the sequence of raw integers
  behind \<^verbatim>\<open>random.randint\<close>, and the number of draws made so far), the gradients in
  \<^verbatim>\<open>svg.defs\<close> and the children of the current layer.
\<close>

record world =
  unit_draws :: "nat \<Rightarrow> real"
  int_draws :: "nat \<Rightarrow> nat"
  drawn :: nat
  defs :: "gradient list"
  layer :: "node list"

text \<open>
  The document of the \<^verbatim>\<open>__main__\<close> block (\<^verbatim>\<open>test_svg\<close>: no gradients, an empty layer), with a
  generator that has made no draw yet and will give the draws \<open>us\<close> and \<open>ks\<close>.
\<close>

definition test_svg :: "(nat \<Rightarrow> real) \<Rightarrow> (nat \<Rightarrow> nat) \<Rightarrow> world" where
  "test_svg us ks = \<lparr>unit_draws = us, int_draws = ks, drawn = 0, defs = [], layer = []\<rparr>"

definition unit_range :: "world \<Rightarrow> bool" where
  "unit_range w \<longleftrightarrow> (\<forall>k. 0 \<le> unit_draws w k \<and> unit_draws w k < 1)"

text \<open>\<^verbatim>\<open>random.uniform(a, b)\<close> is \<^verbatim>\<open>a + (b - a) * self.random()\<close>.\<close>

definition random_uniform :: "pyfloat \<Rightarrow> pyfloat \<Rightarrow> world \<Rightarrow> pyfloat \<times> world" where
  "random_uniform a b w =
     (a + (b - a) * Fin (unit_draws w (drawn w)), w\<lparr>drawn := Suc (drawn w)\<rparr>)"

text \<open>
  \<^verbatim>\<open>random.randint(a, b)\<close> is \<^verbatim>\<open>a + self._randbelow(b - a + 1)\<close>: some integer of
  \<open>[a, b]\<close>, here the raw draw reduced below the width.
\<close>

definition random_randint :: "int \<Rightarrow> int \<Rightarrow> world \<Rightarrow> int \<times> world" where
  "random_randint a b w =
     (a + int (int_draws w (drawn w) mod nat (b - a + 1)), w\<lparr>drawn := Suc (drawn w)\<rparr>)"

section \<open>sweat\_drop.py\<close>

record options =
  drop_count :: int
  drop_size :: pyfloat
  size_variation :: pyfloat
  shadow_angle :: pyfloat
  shadow_distance :: pyfloat
  shadow_opacity :: pyfloat
  highlight_angle :: pyfloat
  highlight_size :: pyfloat
  highlight_opacity :: pyfloat
  area_width :: pyfloat
  area_height :: pyfloat
  blend_mode :: string

text \<open>The defaults of \<^verbatim>\<open>add_arguments\<close>.\<close>

definition default_options :: options where
  "default_options =
     \<lparr>drop_count = 5, drop_size = Fin 20, size_variation = Fin 0.3,
      shadow_angle = Fin 45, shadow_distance = Fin 3, shadow_opacity = Fin 0.515,
      highlight_angle = Fin 135, highlight_size = Fin 0.3, highlight_opacity = Fin 0.963,
      area_width = Fin 200, area_height = Fin 200, blend_mode = ''normal''\<rparr>"

definition create_shadow_gradient :: "options \<Rightarrow> world \<Rightarrow> string \<times> world" where
  "create_shadow_gradient opts w =
     (let (n, w1) = random_randint 1000 9999 w;
          gradient_id = ''shadowGradient_'' @ str_int n;
          stop1 = Stop ''0%'' [(''stop-color'', Text ''#000000''),
                               (''stop-opacity'', Number (shadow_opacity opts))];
          stop2 = Stop ''100%'' [(''stop-color'', Text ''#000000''),
                                 (''stop-opacity'', Text ''0.0'')];
          gradient = LinearGradient gradient_id [stop1, stop2]
      in (gradient_id, w1\<lparr>defs := defs w1 @ [gradient]\<rparr>))"

definition create_drop_gradient :: "options \<Rightarrow> world \<Rightarrow> string \<times> world" where
  "create_drop_gradient opts w =
     (let (n, w1) = random_randint 1000 9999 w;
          gradient_id = ''dropGradient_'' @ str_int n;
          stop1 = Stop ''0%'' [(''stop-color'', Text ''#ffffff''),
                               (''stop-opacity'', Text ''0.0'')];
          stop2 = Stop ''37%'' [(''stop-color'', Text ''#121212''),
                                (''stop-opacity'', Text ''0.014'')];
          stop3 = Stop ''100%'' [(''stop-color'', Text ''#ffffff''),
                                 (''stop-opacity'', Text ''0.286'')];
          gradient = RadialGradient gradient_id ''0.3'' ''0.3'' ''0.7'' [stop1, stop2, stop3]
      in (gradient_id, w1\<lparr>defs := defs w1 @ [gradient]\<rparr>))"

definition create_shadow ::
  "options \<Rightarrow> pyfloat \<Rightarrow> pyfloat \<Rightarrow> pyfloat \<Rightarrow> world \<Rightarrow> node outcome \<times> world" where
  "create_shadow opts x y sz w =
     (let angle_rad = math_radians (shadow_angle opts) in
      case math_cos angle_rad of
        Raised e \<Rightarrow> (Raised e, w)
      | Returned c \<Rightarrow>
         (case math_sin angle_rad of
            Raised e \<Rightarrow> (Raised e, w)
          | Returned s \<Rightarrow>
             (let shadow_x = x + c * shadow_distance opts;
                  shadow_y = y + s * shadow_distance opts;
                  (shadow_gradient_id, w1) = create_shadow_gradient opts w;
                  shadow = Ellipse shadow_x shadow_y (sz * Fin 0.6) (sz * Fin 0.8)
                    [(''fill'', Text (''url(#'' @ shadow_gradient_id @ '')'')),
                     (''stroke'', Text ''none''),
                     (''mix-blend-mode'', Text (blend_mode opts))]
              in (Returned shadow, w1))))"

definition create_main_drop ::
  "options \<Rightarrow> pyfloat \<Rightarrow> pyfloat \<Rightarrow> pyfloat \<Rightarrow> world \<Rightarrow> node \<times> world" where
  "create_main_drop opts x y sz w =
     (let (gradient_id, w1) = create_drop_gradient opts w;
          drop = Ellipse x y (sz * Fin 0.6) (sz * Fin 0.8)
            [(''fill'', Text (''url(#'' @ gradient_id @ '')'')),
             (''stroke'', Text ''none''),
             (''mix-blend-mode'', Text (blend_mode opts)),
             (''opacity'', Text ''1'')]
      in (drop, w1))"

definition create_highlight ::
  "options \<Rightarrow> pyfloat \<Rightarrow> pyfloat \<Rightarrow> pyfloat \<Rightarrow> world \<Rightarrow> node outcome \<times> world" where
  "create_highlight opts x y sz w =
     (let angle_rad = math_radians (highlight_angle opts);
          highlight_offset = sz * Fin 0.3 in
      case math_cos angle_rad of
        Raised e \<Rightarrow> (Raised e, w)
      | Returned c \<Rightarrow>
         (case math_sin angle_rad of
            Raised e \<Rightarrow> (Raised e, w)
          | Returned s \<Rightarrow>
             (let highlight_x = x + c * highlight_offset;
                  highlight_y = y + s * highlight_offset;
                  hl_size = sz * highlight_size opts;
                  highlight = Ellipse highlight_x highlight_y
                    (hl_size * Fin 0.4) (hl_size * Fin 0.6)
                    [(''fill'', Text ''#ffffff''),
                     (''fill-opacity'', Number (highlight_opacity opts)),
                     (''stroke'', Text ''none''),
                     (''mix-blend-mode'', Text (blend_mode opts))]
              in (Returned highlight, w))))"

definition create_single_drop ::
  "options \<Rightarrow> nat \<Rightarrow> pyfloat \<Rightarrow> pyfloat \<Rightarrow> world \<Rightarrow> node outcome \<times> world" where
  "create_single_drop opts index base_size size_var w =
     (let (u, w1) = random_uniform (- size_var) size_var w;
          size_factor = Fin 1 + u;
          drop_size = base_size * size_factor;
          (x, w2) = random_uniform (Fin 0) (area_width opts) w1;
          (y, w3) = random_uniform (Fin 0) (area_height opts) w2
      in case create_shadow opts x y drop_size w3 of
           (Raised e, w4) \<Rightarrow> (Raised e, w4)
         | (Returned shadow, w4) \<Rightarrow>
            (let (main_drop, w5) = create_main_drop opts x y drop_size w4
             in case create_highlight opts x y drop_size w5 of
                  (Raised e, w6) \<Rightarrow> (Raised e, w6)
                | (Returned highlight, w6) \<Rightarrow>
                   (Returned (Group (''Drop_'' @ str_nat (index + 1))
                                [shadow, main_drop, highlight]), w6)))"

text \<open>
  The loop \<^verbatim>\<open>for i in range(count)\<close> of \<^verbatim>\<open>effect\<close>: the children of the main group are
  collected in order; an exception leaves the loop at once.
\<close>

fun effect_loop ::
  "options \<Rightarrow> nat list \<Rightarrow> pyfloat \<Rightarrow> pyfloat \<Rightarrow> node list \<Rightarrow> world \<Rightarrow> node list outcome \<times> world"
  where
  "effect_loop opts [] base_size size_var kids w = (Returned kids, w)"
| "effect_loop opts (i # rest) base_size size_var kids w =
     (case create_single_drop opts i base_size size_var w of
        (Raised e, w1) \<Rightarrow> (Raised e, w1)
      | (Returned drop_group, w1) \<Rightarrow>
          effect_loop opts rest base_size size_var (kids @ [drop_group]) w1)"

text \<open>The body of the \<^verbatim>\<open>try\<close> block of \<^verbatim>\<open>effect\<close>; \<^verbatim>\<open>range(count)\<close> is empty for \<open>count \<le> 0\<close>.\<close>

definition effect_body :: "options \<Rightarrow> world \<Rightarrow> unit outcome \<times> world" where
  "effect_body opts w =
     (let count = drop_count opts;
          base_size = drop_size opts;
          size_var = size_variation opts
      in case effect_loop opts [0 ..< nat count] base_size size_var [] w of
           (Raised e, w1) \<Rightarrow> (Raised e, w1)
         | (Returned kids, w1) \<Rightarrow>
             (Returned (), w1\<lparr>layer := layer w1 @ [Group ''Sweat Drops'' kids]\<rparr>))"

text \<open>\<^verbatim>\<open>effect\<close>: the body under \<^verbatim>\<open>except Exception as e: pass\<close>.\<close>

definition effect :: "options \<Rightarrow> world \<Rightarrow> unit outcome \<times> world" where
  "effect opts w =
     (case effect_body opts w of
        (Raised e, w1) \<Rightarrow> (Returned (), w1)
      | (Returned u, w1) \<Rightarrow> (Returned u, w1))"

section \<open>sweatdrop\_teardrop.py\<close>

record teardrop_options = options +
  teardrop_ratio :: pyfloat
  rotation_variation :: pyfloat

definition td_default_options :: teardrop_options where
  "td_default_options =
     \<lparr>drop_count = 5, drop_size = Fin 20, size_variation = Fin 0.3,
      shadow_angle = Fin 45, shadow_distance = Fin 3, shadow_opacity = Fin 0.2,
      highlight_angle = Fin 135, highlight_size = Fin 0.3, highlight_opacity = Fin 1,
      area_width = Fin 200, area_height = Fin 200, blend_mode = ''hard-light'',
      teardrop_ratio = Fin 1.5, rotation_variation = Fin 30\<rparr>"

definition create_teardrop_path ::
  "teardrop_options \<Rightarrow> pyfloat \<Rightarrow> pyfloat \<Rightarrow> pyfloat \<Rightarrow> pyfloat \<Rightarrow> path_cmd list" where
  "create_teardrop_path opts x y sz rotation =
     (let width = sz * Fin 0.6;
          height = sz * teardrop_ratio opts;
          bottom_y = y + height * Fin 0.3;
          top_y = y - height * Fin 0.7;
          cx1 = x - width * Fin 0.5;
          cx2 = x + width * Fin 0.5;
          cy_mid = y
      in [MoveTo (x, bottom_y),
          CurveTo (cx1, bottom_y) (cx1, cy_mid) (cx1, cy_mid - height * Fin 0.2),
          CurveTo (cx1, top_y + height * Fin 0.3)
                  (x - width * Fin 0.2, top_y + height * Fin 0.1) (x, top_y),
          CurveTo (x + width * Fin 0.2, top_y + height * Fin 0.1)
                  (cx2, top_y + height * Fin 0.3) (cx2, cy_mid - height * Fin 0.2),
          CurveTo (cx2, cy_mid) (cx2, bottom_y) (x, bottom_y),
          ClosePath])"

definition td_create_shadow_gradient :: "teardrop_options \<Rightarrow> world \<Rightarrow> string \<times> world" where
  "td_create_shadow_gradient opts w =
     (let (n, w1) = random_randint 1000 9999 w;
          gradient_id = ''shadowGradient_'' @ str_int n;
          stop1 = Stop ''0%'' [(''stop-color'', Text ''#000000''),
                               (''stop-opacity'', Number (shadow_opacity opts))];
          stop2 = Stop ''100%'' [(''stop-color'', Text ''#000000''),
                                 (''stop-opacity'', Text ''0.0'')];
          gradient = LinearGradient gradient_id [stop1, stop2]
      in (gradient_id, w1\<lparr>defs := defs w1 @ [gradient]\<rparr>))"

definition td_create_drop_gradient :: "teardrop_options \<Rightarrow> world \<Rightarrow> string \<times> world" where
  "td_create_drop_gradient opts w =
     (let (n, w1) = random_randint 1000 9999 w;
          gradient_id = ''dropGradient_'' @ str_int n;
          stop1 = Stop ''0%'' [(''stop-color'', Text ''#ffffff''),
                               (''stop-opacity'', Text ''0.0'')];
          stop2 = Stop ''37%'' [(''stop-color'', Text ''#121212''),
                                (''stop-opacity'', Text ''0.014'')];
          stop3 = Stop ''100%'' [(''stop-color'', Text ''#ffffff''),
                                 (''stop-opacity'', Text ''0.286'')];
          gradient = RadialGradient gradient_id ''0.3'' ''0.3'' ''0.7'' [stop1, stop2, stop3]
      in (gradient_id, w1\<lparr>defs := defs w1 @ [gradient]\<rparr>))"

text \<open>\<^verbatim>\<open>rotation != 0\<close> is true of nan and of both infinities.\<close>

definition rotate_about :: "pyfloat \<Rightarrow> pyfloat \<Rightarrow> pyfloat \<Rightarrow> transform option" where
  "rotate_about rotation cx cy = (if rotation \<noteq> Fin 0 then Some (Rotate rotation cx cy) else None)"

definition create_teardrop_shadow ::
  "teardrop_options \<Rightarrow> pyfloat \<Rightarrow> pyfloat \<Rightarrow> pyfloat \<Rightarrow> pyfloat \<Rightarrow> world \<Rightarrow> node outcome \<times> world"
  where
  "create_teardrop_shadow opts x y sz rotation w =
     (let angle_rad = math_radians (shadow_angle opts) in
      case math_cos angle_rad of
        Raised e \<Rightarrow> (Raised e, w)
      | Returned c \<Rightarrow>
         (case math_sin angle_rad of
            Raised e \<Rightarrow> (Raised e, w)
          | Returned s \<Rightarrow>
             (let shadow_x = x + c * shadow_distance opts;
                  shadow_y = y + s * shadow_distance opts;
                  path_data = create_teardrop_path opts shadow_x shadow_y sz rotation;
                  (shadow_gradient_id, w1) = td_create_shadow_gradient opts w;
                  shadow_path = PathElement path_data
                    [(''fill'', Text (''url(#'' @ shadow_gradient_id @ '')'')),
                     (''stroke'', Text ''none''),
                     (''mix-blend-mode'', Text (blend_mode opts))]
                    (rotate_about rotation shadow_x shadow_y)
              in (Returned shadow_path, w1))))"

definition create_teardrop_main ::
  "teardrop_options \<Rightarrow> pyfloat \<Rightarrow> pyfloat \<Rightarrow> pyfloat \<Rightarrow> pyfloat \<Rightarrow> world \<Rightarrow> node \<times> world" where
  "create_teardrop_main opts x y sz rotation w =
     (let path_data = create_teardrop_path opts x y sz rotation;
          (gradient_id, w1) = td_create_drop_gradient opts w;
          main_path = PathElement path_data
            [(''fill'', Text (''url(#'' @ gradient_id @ '')'')),
             (''stroke'', Text ''none''),
             (''mix-blend-mode'', Text (blend_mode opts)),
             (''opacity'', Text ''1'')]
            (rotate_about rotation x y)
      in (main_path, w1))"

definition create_teardrop_highlight ::
  "teardrop_options \<Rightarrow> pyfloat \<Rightarrow> pyfloat \<Rightarrow> pyfloat \<Rightarrow> pyfloat \<Rightarrow> world \<Rightarrow> node outcome \<times> world"
  where
  "create_teardrop_highlight opts x y sz rotation w =
     (let angle_rad = math_radians (highlight_angle opts);
          highlight_offset = sz * Fin 0.2 in
      case math_cos angle_rad of
        Raised e \<Rightarrow> (Raised e, w)
      | Returned c \<Rightarrow>
         (case math_sin angle_rad of
            Raised e \<Rightarrow> (Raised e, w)
          | Returned s \<Rightarrow>
             (let highlight_x = x + c * highlight_offset;
                  highlight_y = y + s * highlight_offset;
                  hl_size = sz * highlight_size opts;
                  path_data =
                    create_teardrop_path opts highlight_x highlight_y hl_size rotation;
                  highlight_path = PathElement path_data
                    [(''fill'', Text ''#ffffff''),
                     (''fill-opacity'', Number (highlight_opacity opts)),
                     (''stroke'', Text ''none''),
                     (''mix-blend-mode'', Text (blend_mode opts))]
                    (rotate_about rotation highlight_x highlight_y)
              in (Returned highlight_path, w))))"

definition create_single_teardrop ::
  "teardrop_options \<Rightarrow> nat \<Rightarrow> pyfloat \<Rightarrow> pyfloat \<Rightarrow> world \<Rightarrow> node outcome \<times> world" where
  "create_single_teardrop opts index base_size size_var w =
     (let (u, w1) = random_uniform (- size_var) size_var w;
          size_factor = Fin 1 + u;
          drop_size = base_size * size_factor;
          (x, w2) = random_uniform (Fin 0) (area_width opts) w1;
          (y, w3) = random_uniform (Fin 0) (area_height opts) w2;
          (rotation, w4) =
            random_uniform (- rotation_variation opts) (rotation_variation opts) w3
      in case create_teardrop_shadow opts x y drop_size rotation w4 of
           (Raised e, w5) \<Rightarrow> (Raised e, w5)
         | (Returned shadow, w5) \<Rightarrow>
            (let (main_drop, w6) = create_teardrop_main opts x y drop_size rotation w5
             in case create_teardrop_highlight opts x y drop_size rotation w6 of
                  (Raised e, w7) \<Rightarrow> (Raised e, w7)
                | (Returned highlight, w7) \<Rightarrow>
                   (Returned (Group (''Teardrop_'' @ str_nat (index + 1))
                                [shadow, main_drop, highlight]), w7)))"

fun td_effect_loop ::
  "teardrop_options \<Rightarrow> nat list \<Rightarrow> pyfloat \<Rightarrow> pyfloat \<Rightarrow> node list \<Rightarrow> world
     \<Rightarrow> node list outcome \<times> world"
  where
  "td_effect_loop opts [] base_size size_var kids w = (Returned kids, w)"
| "td_effect_loop opts (i # rest) base_size size_var kids w =
     (case create_single_teardrop opts i base_size size_var w of
        (Raised e, w1) \<Rightarrow> (Raised e, w1)
      | (Returned drop_group, w1) \<Rightarrow>
          td_effect_loop opts rest base_size size_var (kids @ [drop_group]) w1)"

definition td_effect_body :: "teardrop_options \<Rightarrow> world \<Rightarrow> unit outcome \<times> world" where
  "td_effect_body opts w =
     (let count = drop_count opts;
          base_size = drop_size opts;
          size_var = size_variation opts
      in case td_effect_loop opts [0 ..< nat count] base_size size_var [] w of
           (Raised e, w1) \<Rightarrow> (Raised e, w1)
         | (Returned kids, w1) \<Rightarrow>
             (Returned (), w1\<lparr>layer := layer w1 @ [Group ''Teardrop Sweat Drops'' kids]\<rparr>))"

definition td_effect :: "teardrop_options \<Rightarrow> world \<Rightarrow> unit outcome \<times> world" where
  "td_effect opts w =
     (case td_effect_body opts w of
        (Raised e, w1) \<Rightarrow> (Returned (), w1)
      | (Returned u, w1) \<Rightarrow> (Returned u, w1))"

section \<open>Auxiliary facts\<close>

subsection \<open>Floats and decimal texts\<close>

lemma math_radians_Fin: "math_radians (Fin a) = Fin (a * (pi / 180))"
  by (simp add: math_radians_def)

lemma math_radians_cases:
  "math_radians PInf = PInf" "math_radians NInf = NInf" "math_radians NaN = NaN"
  by (simp_all add: math_radians_def)

lemma digit_char_inj: "a < 10 \<Longrightarrow> b < 10 \<Longrightarrow> digit_char a = digit_char b \<Longrightarrow> a = b"
proof -
  assume a: "a < 10" and b: "b < 10" and e: "digit_char a = digit_char b"
  have A: "a \<in> {0,1,2,3,4,5,6,7,8,9}" using a by auto
  have B: "b \<in> {0,1,2,3,4,5,6,7,8,9}" using b by auto
  show ?thesis using A B e by (auto simp: digit_char_def)
qed

lemma str_nat_nonempty: "str_nat n \<noteq> []"
  by (subst str_nat.simps) simp

lemma str_nat_inj: "str_nat m = str_nat n \<Longrightarrow> m = n"
proof (induction m arbitrary: n rule: str_nat.induct)
  case (1 m)
  show ?case
  proof (cases "m < 10")
    case True
    then have sm: "str_nat m = [digit_char m]" by (subst str_nat.simps) simp
    show ?thesis
    proof (cases "n < 10")
      case True
      then have "str_nat n = [digit_char n]" by (subst str_nat.simps) simp
      with sm "1.prems" have "digit_char m = digit_char n" by simp
      with \<open>m < 10\<close> \<open>n < 10\<close> show ?thesis by (rule digit_char_inj)
    next
      case False
      then have "str_nat n = str_nat (n div 10) @ [digit_char (n mod 10)]"
        by (subst str_nat.simps) simp
      with sm "1.prems" have "str_nat (n div 10) = []" by simp
      then show ?thesis by (simp add: str_nat_nonempty)
    qed
  next
    case False
    then have sm: "str_nat m = str_nat (m div 10) @ [digit_char (m mod 10)]"
      by (subst str_nat.simps) simp
    show ?thesis
    proof (cases "n < 10")
      case True
      then have "str_nat n = [digit_char n]" by (subst str_nat.simps) simp
      with sm "1.prems" have "str_nat (m div 10) = []" by simp
      then show ?thesis by (simp add: str_nat_nonempty)
    next
      case nb: False
      then have "str_nat n = str_nat (n div 10) @ [digit_char (n mod 10)]"
        by (subst str_nat.simps) simp
      with sm "1.prems" have p: "str_nat (m div 10) = str_nat (n div 10)"
        and q: "digit_char (m mod 10) = digit_char (n mod 10)" by simp_all
      from "1.IH" [OF False p] have d: "m div 10 = n div 10" .
      have r: "m mod 10 = n mod 10" by (rule digit_char_inj [OF _ _ q]) simp_all
      from d r show ?thesis by (metis div_mult_mod_eq)
    qed
  qed
qed

lemma str_int_inj: "0 \<le> a \<Longrightarrow> 0 \<le> b \<Longrightarrow> str_int a = str_int b \<Longrightarrow> a = b"
  by (auto simp: str_int_def dest!: str_nat_inj)

subsection \<open>The functions of sweat\_drop.py as equations\<close>

lemma math_cos_radians:
  "math_cos (math_radians a) =
     (if is_inf a then Raised ValueError else Returned (cos_of_degrees a))"
  by (cases a) (simp_all add: cos_of_degrees_def math_radians_Fin math_radians_cases)

lemma math_sin_radians:
  "math_sin (math_radians a) =
     (if is_inf a then Raised ValueError else Returned (sin_of_degrees a))"
  by (cases a) (simp_all add: sin_of_degrees_def math_radians_Fin math_radians_cases)

lemma cos_of_degrees_Fin: "cos_of_degrees (Fin a) = Fin (cos (a * (pi / 180)))"
  by (simp add: cos_of_degrees_def math_radians_Fin)

lemma sin_of_degrees_Fin: "sin_of_degrees (Fin a) = Fin (sin (a * (pi / 180)))"
  by (simp add: sin_of_degrees_def math_radians_Fin)

lemma plus_numeral_Suc:
  "n + 3 = Suc (Suc (Suc n))" "n + 4 = Suc (Suc (Suc (Suc n)))"
  "n + 5 = Suc (Suc (Suc (Suc (Suc n))))" "n + 6 = Suc (Suc (Suc (Suc (Suc (Suc n)))))"
  by simp_all

lemma random_randint_id:
  "random_randint 1000 9999 w =
     (1000 + int (int_draws w (drawn w) mod 9000), w\<lparr>drawn := Suc (drawn w)\<rparr>)"
  by (simp add: random_randint_def)

lemma create_shadow_gradient_eq:
  "create_shadow_gradient opts w =
     (''shadowGradient_'' @ str_int (1000 + int (int_draws w (drawn w) mod 9000)),
      w\<lparr>drawn := Suc (drawn w),
        defs := defs w @
          [LinearGradient
             (''shadowGradient_'' @ str_int (1000 + int (int_draws w (drawn w) mod 9000)))
             [Stop ''0%'' [(''stop-color'', Text ''#000000''),
                           (''stop-opacity'', Number (shadow_opacity opts))],
              Stop ''100%'' [(''stop-color'', Text ''#000000''),
                             (''stop-opacity'', Text ''0.0'')]]]\<rparr>)"
  by (simp add: create_shadow_gradient_def random_randint_id Let_def)

lemma create_drop_gradient_eq:
  "create_drop_gradient opts w =
     (''dropGradient_'' @ str_int (1000 + int (int_draws w (drawn w) mod 9000)),
      w\<lparr>drawn := Suc (drawn w),
        defs := defs w @
          [RadialGradient
             (''dropGradient_'' @ str_int (1000 + int (int_draws w (drawn w) mod 9000)))
             ''0.3'' ''0.3'' ''0.7''
             [Stop ''0%'' [(''stop-color'', Text ''#ffffff''),
                           (''stop-opacity'', Text ''0.0'')],
              Stop ''37%'' [(''stop-color'', Text ''#121212''),
                            (''stop-opacity'', Text ''0.014'')],
              Stop ''100%'' [(''stop-color'', Text ''#ffffff''),
                             (''stop-opacity'', Text ''0.286'')]]]\<rparr>)"
  by (simp add: create_drop_gradient_def random_randint_id Let_def)

lemma create_shadow_eq:
  "create_shadow opts x y sz w =
     (if is_inf (shadow_angle opts) then (Raised ValueError, w)
      else (Returned (Ellipse (x + cos_of_degrees (shadow_angle opts) * shadow_distance opts)
              (y + sin_of_degrees (shadow_angle opts) * shadow_distance opts)
              (sz * Fin 0.6) (sz * Fin 0.8)
              [(''fill'', Text (''url(#'' @ fst (create_shadow_gradient opts w) @ '')'')),
               (''stroke'', Text ''none''),
               (''mix-blend-mode'', Text (blend_mode opts))]),
            snd (create_shadow_gradient opts w)))"
  by (simp add: create_shadow_def math_cos_radians math_sin_radians Let_def split: prod.splits)

lemma create_highlight_eq:
  "create_highlight opts x y sz w =
     (if is_inf (highlight_angle opts) then (Raised ValueError, w)
      else (Returned (Ellipse (x + cos_of_degrees (highlight_angle opts) * (sz * Fin 0.3))
              (y + sin_of_degrees (highlight_angle opts) * (sz * Fin 0.3))
              (sz * highlight_size opts * Fin 0.4) (sz * highlight_size opts * Fin 0.6)
              [(''fill'', Text ''#ffffff''),
               (''fill-opacity'', Number (highlight_opacity opts)),
               (''stroke'', Text ''none''),
               (''mix-blend-mode'', Text (blend_mode opts))]), w))"
  by (simp add: create_highlight_def math_cos_radians math_sin_radians Let_def)

lemma create_main_drop_eq:
  "create_main_drop opts x y sz w =
     (Ellipse x y (sz * Fin 0.6) (sz * Fin 0.8)
        [(''fill'', Text (''url(#'' @ fst (create_drop_gradient opts w) @ '')'')),
         (''stroke'', Text ''none''),
         (''mix-blend-mode'', Text (blend_mode opts)),
         (''opacity'', Text ''1'')],
      snd (create_drop_gradient opts w))"
  by (simp add: create_main_drop_def Let_def split: prod.splits)

lemma create_single_drop_eq:
  fixes opts i bs sv w
  defines "sz \<equiv> bs * (Fin 1 + (- sv + (sv - (- sv)) * Fin (unit_draws w (drawn w))))"
    and "x \<equiv> Fin 0 + (area_width opts - Fin 0) * Fin (unit_draws w (drawn w + 1))"
    and "y \<equiv> Fin 0 + (area_height opts - Fin 0) * Fin (unit_draws w (drawn w + 2))"
    and "sid \<equiv> ''shadowGradient_'' @ str_int (1000 + int (int_draws w (drawn w + 3) mod 9000))"
    and "did \<equiv> ''dropGradient_'' @ str_int (1000 + int (int_draws w (drawn w + 4) mod 9000))"
  defines "w5 \<equiv> w\<lparr>drawn := drawn w + 5,
        defs := defs w @
          [LinearGradient sid
             [Stop ''0%'' [(''stop-color'', Text ''#000000''),
                           (''stop-opacity'', Number (shadow_opacity opts))],
              Stop ''100%'' [(''stop-color'', Text ''#000000''),
                             (''stop-opacity'', Text ''0.0'')]],
           RadialGradient did ''0.3'' ''0.3'' ''0.7''
             [Stop ''0%'' [(''stop-color'', Text ''#ffffff''),
                           (''stop-opacity'', Text ''0.0'')],
              Stop ''37%'' [(''stop-color'', Text ''#121212''),
                            (''stop-opacity'', Text ''0.014'')],
              Stop ''100%'' [(''stop-color'', Text ''#ffffff''),
                             (''stop-opacity'', Text ''0.286'')]]]\<rparr>"
  shows "create_single_drop opts i bs sv w =
    (if is_inf (shadow_angle opts) then (Raised ValueError, w\<lparr>drawn := drawn w + 3\<rparr>)
     else if is_inf (highlight_angle opts) then (Raised ValueError, w5)
     else (Returned (Group (''Drop_'' @ str_nat (i + 1))
                   [Ellipse (x + cos_of_degrees (shadow_angle opts) * shadow_distance opts)
                      (y + sin_of_degrees (shadow_angle opts) * shadow_distance opts)
                      (sz * Fin 0.6) (sz * Fin 0.8)
                      [(''fill'', Text (''url(#'' @ sid @ '')'')),
                       (''stroke'', Text ''none''),
                       (''mix-blend-mode'', Text (blend_mode opts))],
                    Ellipse x y (sz * Fin 0.6) (sz * Fin 0.8)
                      [(''fill'', Text (''url(#'' @ did @ '')'')),
                       (''stroke'', Text ''none''),
                       (''mix-blend-mode'', Text (blend_mode opts)),
                       (''opacity'', Text ''1'')],
                    Ellipse (x + cos_of_degrees (highlight_angle opts) * (sz * Fin 0.3))
                      (y + sin_of_degrees (highlight_angle opts) * (sz * Fin 0.3))
                      (sz * highlight_size opts * Fin 0.4) (sz * highlight_size opts * Fin 0.6)
                      [(''fill'', Text ''#ffffff''),
                       (''fill-opacity'', Number (highlight_opacity opts)),
                       (''stroke'', Text ''none''),
                       (''mix-blend-mode'', Text (blend_mode opts))]]), w5))"
  unfolding sz_def x_def y_def sid_def did_def w5_def
  by (simp add: create_single_drop_def random_uniform_def create_shadow_eq create_main_drop_eq
      create_highlight_eq create_shadow_gradient_eq create_drop_gradient_eq Let_def
      plus_numeral_Suc)

subsection \<open>The functions of sweatdrop\_teardrop.py as equations\<close>

lemma td_create_shadow_gradient_eq:
  "td_create_shadow_gradient opts w =
     (''shadowGradient_'' @ str_int (1000 + int (int_draws w (drawn w) mod 9000)),
      w\<lparr>drawn := Suc (drawn w),
        defs := defs w @
          [LinearGradient
             (''shadowGradient_'' @ str_int (1000 + int (int_draws w (drawn w) mod 9000)))
             [Stop ''0%'' [(''stop-color'', Text ''#000000''),
                           (''stop-opacity'', Number (shadow_opacity opts))],
              Stop ''100%'' [(''stop-color'', Text ''#000000''),
                             (''stop-opacity'', Text ''0.0'')]]]\<rparr>)"
  by (simp add: td_create_shadow_gradient_def random_randint_id Let_def)

lemma td_create_drop_gradient_eq:
  "td_create_drop_gradient opts w =
     (''dropGradient_'' @ str_int (1000 + int (int_draws w (drawn w) mod 9000)),
      w\<lparr>drawn := Suc (drawn w),
        defs := defs w @
          [RadialGradient
             (''dropGradient_'' @ str_int (1000 + int (int_draws w (drawn w) mod 9000)))
             ''0.3'' ''0.3'' ''0.7''
             [Stop ''0%'' [(''stop-color'', Text ''#ffffff''),
                           (''stop-opacity'', Text ''0.0'')],
              Stop ''37%'' [(''stop-color'', Text ''#121212''),
                            (''stop-opacity'', Text ''0.014'')],
              Stop ''100%'' [(''stop-color'', Text ''#ffffff''),
                             (''stop-opacity'', Text ''0.286'')]]]\<rparr>)"
  by (simp add: td_create_drop_gradient_def random_randint_id Let_def)

lemma create_teardrop_shadow_eq:
  "create_teardrop_shadow opts x y sz rotation w =
     (if is_inf (shadow_angle opts) then (Raised ValueError, w)
      else (Returned (PathElement
              (create_teardrop_path opts
                 (x + cos_of_degrees (shadow_angle opts) * shadow_distance opts)
                 (y + sin_of_degrees (shadow_angle opts) * shadow_distance opts) sz rotation)
              [(''fill'', Text (''url(#'' @ fst (td_create_shadow_gradient opts w) @ '')'')),
               (''stroke'', Text ''none''),
               (''mix-blend-mode'', Text (blend_mode opts))]
              (rotate_about rotation
                 (x + cos_of_degrees (shadow_angle opts) * shadow_distance opts)
                 (y + sin_of_degrees (shadow_angle opts) * shadow_distance opts))),
            snd (td_create_shadow_gradient opts w)))"
  by (simp add: create_teardrop_shadow_def math_cos_radians math_sin_radians Let_def
      split: prod.splits)

lemma create_teardrop_main_eq:
  "create_teardrop_main opts x y sz rotation w =
     (PathElement (create_teardrop_path opts x y sz rotation)
        [(''fill'', Text (''url(#'' @ fst (td_create_drop_gradient opts w) @ '')'')),
         (''stroke'', Text ''none''),
         (''mix-blend-mode'', Text (blend_mode opts)),
         (''opacity'', Text ''1'')]
        (rotate_about rotation x y),
      snd (td_create_drop_gradient opts w))"
  by (simp add: create_teardrop_main_def Let_def split: prod.splits)

lemma create_teardrop_highlight_eq:
  "create_teardrop_highlight opts x y sz rotation w =
     (if is_inf (highlight_angle opts) then (Raised ValueError, w)
      else (Returned (PathElement
              (create_teardrop_path opts
                 (x + cos_of_degrees (highlight_angle opts) * (sz * Fin 0.2))
                 (y + sin_of_degrees (highlight_angle opts) * (sz * Fin 0.2))
                 (sz * highlight_size opts) rotation)
              [(''fill'', Text ''#ffffff''),
               (''fill-opacity'', Number (highlight_opacity opts)),
               (''stroke'', Text ''none''),
               (''mix-blend-mode'', Text (blend_mode opts))]
              (rotate_about rotation
                 (x + cos_of_degrees (highlight_angle opts) * (sz * Fin 0.2))
                 (y + sin_of_degrees (highlight_angle opts) * (sz * Fin 0.2)))), w))"
  by (simp add: create_teardrop_highlight_def math_cos_radians math_sin_radians Let_def)

lemma create_single_teardrop_eq:
  fixes opts i bs sv w
  defines "sz \<equiv> bs * (Fin 1 + (- sv + (sv - (- sv)) * Fin (unit_draws w (drawn w))))"
    and "x \<equiv> Fin 0 + (area_width opts - Fin 0) * Fin (unit_draws w (drawn w + 1))"
    and "y \<equiv> Fin 0 + (area_height opts - Fin 0) * Fin (unit_draws w (drawn w + 2))"
    and "rot \<equiv> - rotation_variation opts +
           (rotation_variation opts - (- rotation_variation opts)) *
           Fin (unit_draws w (drawn w + 3))"
    and "sid \<equiv> ''shadowGradient_'' @ str_int (1000 + int (int_draws w (drawn w + 4) mod 9000))"
    and "did \<equiv> ''dropGradient_'' @ str_int (1000 + int (int_draws w (drawn w + 5) mod 9000))"
  defines "w6 \<equiv> w\<lparr>drawn := drawn w + 6,
        defs := defs w @
          [LinearGradient sid
             [Stop ''0%'' [(''stop-color'', Text ''#000000''),
                           (''stop-opacity'', Number (shadow_opacity opts))],
              Stop ''100%'' [(''stop-color'', Text ''#000000''),
                             (''stop-opacity'', Text ''0.0'')]],
           RadialGradient did ''0.3'' ''0.3'' ''0.7''
             [Stop ''0%'' [(''stop-color'', Text ''#ffffff''),
                           (''stop-opacity'', Text ''0.0'')],
              Stop ''37%'' [(''stop-color'', Text ''#121212''),
                            (''stop-opacity'', Text ''0.014'')],
              Stop ''100%'' [(''stop-color'', Text ''#ffffff''),
                             (''stop-opacity'', Text ''0.286'')]]]\<rparr>"
  shows "create_single_teardrop opts i bs sv w =
    (if is_inf (shadow_angle opts) then (Raised ValueError, w\<lparr>drawn := drawn w + 4\<rparr>)
     else if is_inf (highlight_angle opts) then (Raised ValueError, w6)
     else (Returned (Group (''Teardrop_'' @ str_nat (i + 1))
             [PathElement
                (create_teardrop_path opts
                   (x + cos_of_degrees (shadow_angle opts) * shadow_distance opts)
                   (y + sin_of_degrees (shadow_angle opts) * shadow_distance opts) sz rot)
                [(''fill'', Text (''url(#'' @ sid @ '')'')),
                 (''stroke'', Text ''none''),
                 (''mix-blend-mode'', Text (blend_mode opts))]
                (rotate_about rot
                   (x + cos_of_degrees (shadow_angle opts) * shadow_distance opts)
                   (y + sin_of_degrees (shadow_angle opts) * shadow_distance opts)),
              PathElement (create_teardrop_path opts x y sz rot)
                [(''fill'', Text (''url(#'' @ did @ '')'')),
                 (''stroke'', Text ''none''),
                 (''mix-blend-mode'', Text (blend_mode opts)),
                 (''opacity'', Text ''1'')]
                (rotate_about rot x y),
              PathElement
                (create_teardrop_path opts
                   (x + cos_of_degrees (highlight_angle opts) * (sz * Fin 0.2))
                   (y + sin_of_degrees (highlight_angle opts) * (sz * Fin 0.2))
                   (sz * highlight_size opts) rot)
                [(''fill'', Text ''#ffffff''),
                 (''fill-opacity'', Number (highlight_opacity opts)),
                 (''stroke'', Text ''none''),
                 (''mix-blend-mode'', Text (blend_mode opts))]
                (rotate_about rot
                   (x + cos_of_degrees (highlight_angle opts) * (sz * Fin 0.2))
                   (y + sin_of_degrees (highlight_angle opts) * (sz * Fin 0.2)))]), w6))"
  unfolding sz_def x_def y_def rot_def sid_def did_def w6_def
  by (simp add: create_single_teardrop_def random_uniform_def create_teardrop_shadow_eq
      create_teardrop_main_eq create_teardrop_highlight_eq td_create_shadow_gradient_eq
      td_create_drop_gradient_eq Let_def plus_numeral_Suc)

subsection \<open>The loops\<close>

lemma effect_loop_invariant:
  assumes "effect_loop opts js bs sv kids w = (Returned out, w')"
    and "Q seen kids w"
    and "\<And>i seen kids w g w1. Q seen kids w \<Longrightarrow>
           create_single_drop opts i bs sv w = (Returned g, w1) \<Longrightarrow> Q (seen @ [i]) (kids @ [g]) w1"
  shows "Q (seen @ js) out w'"
  using assms(1,2)
proof (induction js arbitrary: seen kids w)
  case Nil
  then show ?case by simp
next
  case (Cons j js)
  from Cons.prems(1) obtain g w1 where
    one: "create_single_drop opts j bs sv w = (Returned g, w1)"
    and rest: "effect_loop opts js bs sv (kids @ [g]) w1 = (Returned out, w')"
    by (auto split: prod.splits outcome.splits)
  from assms(3) [OF Cons.prems(2) one] have "Q (seen @ [j]) (kids @ [g]) w1" .
  from Cons.IH [OF rest this] show ?case by simp
qed

lemma td_effect_loop_invariant:
  assumes "td_effect_loop opts js bs sv kids w = (Returned out, w')"
    and "Q seen kids w"
    and "\<And>i seen kids w g w1. Q seen kids w \<Longrightarrow>
           create_single_teardrop opts i bs sv w = (Returned g, w1) \<Longrightarrow>
           Q (seen @ [i]) (kids @ [g]) w1"
  shows "Q (seen @ js) out w'"
  using assms(1,2)
proof (induction js arbitrary: seen kids w)
  case Nil
  then show ?case by simp
next
  case (Cons j js)
  from Cons.prems(1) obtain g w1 where
    one: "create_single_teardrop opts j bs sv w = (Returned g, w1)"
    and rest: "td_effect_loop opts js bs sv (kids @ [g]) w1 = (Returned out, w')"
    by (auto split: prod.splits outcome.splits)
  from assms(3) [OF Cons.prems(2) one] have "Q (seen @ [j]) (kids @ [g]) w1" .
  from Cons.IH [OF rest this] show ?case by simp
qed

lemma effect_loop_returns:
  assumes "\<not> is_inf (shadow_angle opts)" "\<not> is_inf (highlight_angle opts)"
  shows "\<exists>out w'. effect_loop opts js bs sv kids w = (Returned out, w')"
proof (induction js arbitrary: kids w)
  case Nil
  show ?case by simp
next
  case (Cons j js)
  from assms obtain g w1 where "create_single_drop opts j bs sv w = (Returned g, w1)"
    by (simp add: create_single_drop_eq)
  with Cons.IH [of "kids @ [g]" w1] show ?case by simp
qed

lemma td_effect_loop_returns:
  assumes "\<not> is_inf (shadow_angle opts)" "\<not> is_inf (highlight_angle opts)"
  shows "\<exists>out w'. td_effect_loop opts js bs sv kids w = (Returned out, w')"
proof (induction js arbitrary: kids w)
  case Nil
  show ?case by simp
next
  case (Cons j js)
  from assms obtain g w1 where "create_single_teardrop opts j bs sv w = (Returned g, w1)"
    by (simp add: create_single_teardrop_eq)
  with Cons.IH [of "kids @ [g]" w1] show ?case by simp
qed

subsection \<open>A drop that is returned\<close>

lemma create_single_drop_Returned:
  assumes "create_single_drop opts i bs sv w = (Returned g, w')"
  shows "\<exists>s m h w4 w5.
     create_shadow opts
       (fst (random_uniform (Fin 0) (area_width opts) (w\<lparr>drawn := Suc (drawn w)\<rparr>)))
       (fst (random_uniform (Fin 0) (area_height opts) (w\<lparr>drawn := Suc (Suc (drawn w))\<rparr>)))
       (bs * (Fin 1 + fst (random_uniform (- sv) sv w)))
       (w\<lparr>drawn := drawn w + 3\<rparr>) = (Returned s, w4) \<and>
     create_main_drop opts
       (fst (random_uniform (Fin 0) (area_width opts) (w\<lparr>drawn := Suc (drawn w)\<rparr>)))
       (fst (random_uniform (Fin 0) (area_height opts) (w\<lparr>drawn := Suc (Suc (drawn w))\<rparr>)))
       (bs * (Fin 1 + fst (random_uniform (- sv) sv w))) w4 = (m, w5) \<and>
     create_highlight opts
       (fst (random_uniform (Fin 0) (area_width opts) (w\<lparr>drawn := Suc (drawn w)\<rparr>)))
       (fst (random_uniform (Fin 0) (area_height opts) (w\<lparr>drawn := Suc (Suc (drawn w))\<rparr>)))
       (bs * (Fin 1 + fst (random_uniform (- sv) sv w))) w5 = (Returned h, w') \<and>
     g = Group (''Drop_'' @ str_nat (i + 1)) [s, m, h]"
  using assms
  by (auto simp: create_single_drop_def random_uniform_def Let_def plus_numeral_Suc
      split: prod.splits outcome.splits)

lemma create_single_teardrop_Returned:
  assumes "create_single_teardrop opts i bs sv w = (Returned g, w')"
  shows "\<exists>s m h w5 w6.
     create_teardrop_shadow opts
       (fst (random_uniform (Fin 0) (area_width opts) (w\<lparr>drawn := Suc (drawn w)\<rparr>)))
       (fst (random_uniform (Fin 0) (area_height opts) (w\<lparr>drawn := Suc (Suc (drawn w))\<rparr>)))
       (bs * (Fin 1 + fst (random_uniform (- sv) sv w)))
       (fst (random_uniform (- rotation_variation opts) (rotation_variation opts)
              (w\<lparr>drawn := drawn w + 3\<rparr>)))
       (w\<lparr>drawn := drawn w + 4\<rparr>) = (Returned s, w5) \<and>
     create_teardrop_main opts
       (fst (random_uniform (Fin 0) (area_width opts) (w\<lparr>drawn := Suc (drawn w)\<rparr>)))
       (fst (random_uniform (Fin 0) (area_height opts) (w\<lparr>drawn := Suc (Suc (drawn w))\<rparr>)))
       (bs * (Fin 1 + fst (random_uniform (- sv) sv w)))
       (fst (random_uniform (- rotation_variation opts) (rotation_variation opts)
              (w\<lparr>drawn := drawn w + 3\<rparr>))) w5 = (m, w6) \<and>
     create_teardrop_highlight opts
       (fst (random_uniform (Fin 0) (area_width opts) (w\<lparr>drawn := Suc (drawn w)\<rparr>)))
       (fst (random_uniform (Fin 0) (area_height opts) (w\<lparr>drawn := Suc (Suc (drawn w))\<rparr>)))
       (bs * (Fin 1 + fst (random_uniform (- sv) sv w)))
       (fst (random_uniform (- rotation_variation opts) (rotation_variation opts)
              (w\<lparr>drawn := drawn w + 3\<rparr>))) w6 = (Returned h, w') \<and>
     g = Group (''Teardrop_'' @ str_nat (i + 1)) [s, m, h]"
  using assms
  by (auto simp: create_single_teardrop_def random_uniform_def Let_def plus_numeral_Suc
      split: prod.splits outcome.splits)

subsection \<open>What the loops leave unchanged\<close>

lemma create_single_drop_frame:
  "create_single_drop opts i bs sv w = (r, w1) \<Longrightarrow>
   layer w1 = layer w \<and> unit_draws w1 = unit_draws w \<and> int_draws w1 = int_draws w"
  by (auto simp: create_single_drop_eq split: if_splits)

lemma create_single_teardrop_frame:
  "create_single_teardrop opts i bs sv w = (r, w1) \<Longrightarrow>
   layer w1 = layer w \<and> unit_draws w1 = unit_draws w \<and> int_draws w1 = int_draws w"
  by (auto simp: create_single_teardrop_eq split: if_splits)

lemma effect_loop_frame:
  "effect_loop opts js bs sv kids w = (r, w') \<Longrightarrow>
   layer w' = layer w \<and> unit_draws w' = unit_draws w \<and> int_draws w' = int_draws w"
proof (induction js arbitrary: kids w)
  case Nil
  then show ?case by simp
next
  case (Cons j js)
  obtain r1 w1 where one: "create_single_drop opts j bs sv w = (r1, w1)"
    by (cases "create_single_drop opts j bs sv w")
  note f = create_single_drop_frame [OF one]
  show ?case
  proof (cases r1)
    case (Returned g)
    with Cons.prems one have "effect_loop opts js bs sv (kids @ [g]) w1 = (r, w')" by simp
    from Cons.IH [OF this] f show ?thesis by simp
  next
    case (Raised e)
    with Cons.prems one have "w' = w1" by simp
    with f show ?thesis by simp
  qed
qed

lemma td_effect_loop_frame:
  "td_effect_loop opts js bs sv kids w = (r, w') \<Longrightarrow>
   layer w' = layer w \<and> unit_draws w' = unit_draws w \<and> int_draws w' = int_draws w"
proof (induction js arbitrary: kids w)
  case Nil
  then show ?case by simp
next
  case (Cons j js)
  obtain r1 w1 where one: "create_single_teardrop opts j bs sv w = (r1, w1)"
    by (cases "create_single_teardrop opts j bs sv w")
  note f = create_single_teardrop_frame [OF one]
  show ?case
  proof (cases r1)
    case (Returned g)
    with Cons.prems one have "td_effect_loop opts js bs sv (kids @ [g]) w1 = (r, w')" by simp
    from Cons.IH [OF this] f show ?thesis by simp
  next
    case (Raised e)
    with Cons.prems one have "w' = w1" by simp
    with f show ?thesis by simp
  qed
qed

text \<open>What \<^verbatim>\<open>effect\<close> leaves behind: the layer as it was, or with the main group appended.\<close>

lemma effect_cases:
  assumes "effect opts w = (r, w')"
  shows "r = Returned () \<and>
    ((\<exists>e. effect_loop opts [0 ..< nat (drop_count opts)] (drop_size opts) (size_variation opts)
             [] w = (Raised e, w') \<and> layer w' = layer w) \<or>
     (\<exists>kids w1. effect_loop opts [0 ..< nat (drop_count opts)] (drop_size opts)
             (size_variation opts) [] w = (Returned kids, w1) \<and>
           w' = w1\<lparr>layer := layer w @ [Group ''Sweat Drops'' kids]\<rparr>))"
proof -
  obtain r1 w1 where run: "effect_loop opts [0 ..< nat (drop_count opts)] (drop_size opts)
      (size_variation opts) [] w = (r1, w1)"
    by (cases "effect_loop opts [0 ..< nat (drop_count opts)] (drop_size opts)
      (size_variation opts) [] w")
  note f = effect_loop_frame [OF run]
  show ?thesis
  proof (cases r1)
    case (Returned kids)
    with run assms f show ?thesis by (auto simp: effect_def effect_body_def)
  next
    case (Raised e)
    with run assms f show ?thesis by (auto simp: effect_def effect_body_def)
  qed
qed

lemma td_effect_cases:
  assumes "td_effect opts w = (r, w')"
  shows "r = Returned () \<and>
    ((\<exists>e. td_effect_loop opts [0 ..< nat (drop_count opts)] (drop_size opts)
             (size_variation opts) [] w = (Raised e, w') \<and> layer w' = layer w) \<or>
     (\<exists>kids w1. td_effect_loop opts [0 ..< nat (drop_count opts)] (drop_size opts)
             (size_variation opts) [] w = (Returned kids, w1) \<and>
           w' = w1\<lparr>layer := layer w @ [Group ''Teardrop Sweat Drops'' kids]\<rparr>))"
proof -
  obtain r1 w1 where run: "td_effect_loop opts [0 ..< nat (drop_count opts)] (drop_size opts)
      (size_variation opts) [] w = (r1, w1)"
    by (cases "td_effect_loop opts [0 ..< nat (drop_count opts)] (drop_size opts)
      (size_variation opts) [] w")
  note f = td_effect_loop_frame [OF run]
  show ?thesis
  proof (cases r1)
    case (Returned kids)
    with run assms f show ?thesis by (auto simp: td_effect_def td_effect_body_def)
  next
    case (Raised e)
    with run assms f show ?thesis by (auto simp: td_effect_def td_effect_body_def)
  qed
qed

subsection \<open>The children of the main group\<close>

lemma effect_loop_trace:
  assumes "effect_loop opts js bs sv [] w = (Returned out, w')"
  shows "length out = length js \<and>
    (\<forall>j < length js. \<exists>w0 w1. create_single_drop opts (js ! j) bs sv w0 = (Returned (out ! j), w1))"
proof -
  let ?Q = "\<lambda>seen kids (w :: world). length kids = length seen \<and>
    (\<forall>j < length seen. \<exists>w0 w1. create_single_drop opts (seen ! j) bs sv w0
        = (Returned (kids ! j), w1))"
  have "?Q ([] @ js) out w'"
  proof (rule effect_loop_invariant [OF assms, where Q = ?Q])
    show "?Q [] [] w" by simp
  next
    fix i seen kids w g w1
    assume q: "?Q seen kids w"
      and one: "create_single_drop opts i bs sv w = (Returned g, w1)"
    show "?Q (seen @ [i]) (kids @ [g]) w1"
    proof (intro conjI allI impI)
      from q show "length (kids @ [g]) = length (seen @ [i])" by simp
    next
      fix j
      assume j: "j < length (seen @ [i])"
      show "\<exists>w0 w1. create_single_drop opts ((seen @ [i]) ! j) bs sv w0
          = (Returned ((kids @ [g]) ! j), w1)"
      proof (cases "j < length seen")
        case True
        with q show ?thesis by (simp add: nth_append)
      next
        case False
        with j have "j = length seen" by simp
        with q one show ?thesis by (auto simp: nth_append)
      qed
    qed
  qed
  then show ?thesis by simp
qed

lemma td_effect_loop_trace:
  assumes "td_effect_loop opts js bs sv [] w = (Returned out, w')"
  shows "length out = length js \<and>
    (\<forall>j < length js. \<exists>w0 w1. create_single_teardrop opts (js ! j) bs sv w0
        = (Returned (out ! j), w1))"
proof -
  let ?Q = "\<lambda>seen kids (w :: world). length kids = length seen \<and>
    (\<forall>j < length seen. \<exists>w0 w1. create_single_teardrop opts (seen ! j) bs sv w0
        = (Returned (kids ! j), w1))"
  have "?Q ([] @ js) out w'"
  proof (rule td_effect_loop_invariant [OF assms, where Q = ?Q])
    show "?Q [] [] w" by simp
  next
    fix i seen kids w g w1
    assume q: "?Q seen kids w"
      and one: "create_single_teardrop opts i bs sv w = (Returned g, w1)"
    show "?Q (seen @ [i]) (kids @ [g]) w1"
    proof (intro conjI allI impI)
      from q show "length (kids @ [g]) = length (seen @ [i])" by simp
    next
      fix j
      assume j: "j < length (seen @ [i])"
      show "\<exists>w0 w1. create_single_teardrop opts ((seen @ [i]) ! j) bs sv w0
          = (Returned ((kids @ [g]) ! j), w1)"
      proof (cases "j < length seen")
        case True
        with q show ?thesis by (simp add: nth_append)
      next
        case False
        with j have "j = length seen" by simp
        with q one show ?thesis by (auto simp: nth_append)
      qed
    qed
  qed
  then show ?thesis by simp
qed

text \<open>A run with no infinite angle: \<^verbatim>\<open>effect\<close> appends the main group, one child per index.\<close>

lemma effect_runs:
  assumes "\<not> is_inf (shadow_angle opts)" "\<not> is_inf (highlight_angle opts)"
  shows "\<exists>kids w1.
    effect_loop opts [0 ..< nat (drop_count opts)] (drop_size opts) (size_variation opts) [] w
      = (Returned kids, w1) \<and>
    effect opts w = (Returned (), w1\<lparr>layer := layer w @ [Group ''Sweat Drops'' kids]\<rparr>) \<and>
    length kids = nat (drop_count opts) \<and>
    (\<forall>j < nat (drop_count opts). \<exists>w0 w2.
       create_single_drop opts j (drop_size opts) (size_variation opts) w0
         = (Returned (kids ! j), w2))"
proof -
  from effect_loop_returns [OF assms] obtain kids w1 where
    run: "effect_loop opts [0 ..< nat (drop_count opts)] (drop_size opts) (size_variation opts)
      [] w = (Returned kids, w1)" by blast
  from effect_loop_frame [OF run] have lay: "layer w1 = layer w" by simp
  from run lay have eff:
    "effect opts w = (Returned (), w1\<lparr>layer := layer w @ [Group ''Sweat Drops'' kids]\<rparr>)"
    by (simp add: effect_def effect_body_def)
  from effect_loop_trace [OF run] run eff show ?thesis by auto
qed

lemma td_effect_runs:
  assumes "\<not> is_inf (shadow_angle opts)" "\<not> is_inf (highlight_angle opts)"
  shows "\<exists>kids w1.
    td_effect_loop opts [0 ..< nat (drop_count opts)] (drop_size opts) (size_variation opts) [] w
      = (Returned kids, w1) \<and>
    td_effect opts w
      = (Returned (), w1\<lparr>layer := layer w @ [Group ''Teardrop Sweat Drops'' kids]\<rparr>) \<and>
    length kids = nat (drop_count opts) \<and>
    (\<forall>j < nat (drop_count opts). \<exists>w0 w2.
       create_single_teardrop opts j (drop_size opts) (size_variation opts) w0
         = (Returned (kids ! j), w2))"
proof -
  from td_effect_loop_returns [OF assms] obtain kids w1 where
    run: "td_effect_loop opts [0 ..< nat (drop_count opts)] (drop_size opts)
      (size_variation opts) [] w = (Returned kids, w1)" by blast
  from td_effect_loop_frame [OF run] have lay: "layer w1 = layer w" by simp
  from run lay have eff: "td_effect opts w
      = (Returned (), w1\<lparr>layer := layer w @ [Group ''Teardrop Sweat Drops'' kids]\<rparr>)"
    by (simp add: td_effect_def td_effect_body_def)
  from td_effect_loop_trace [OF run] run eff show ?thesis by auto
qed

subsection \<open>Sampled size and position\<close>

lemma jitter_bounds:
  fixes r v :: real
  assumes "0 \<le> r" "r < 1" "0 \<le> v"
  shows "- v \<le> - v + (v - (- v)) * r" "- v + (v - (- v)) * r \<le> v"
proof -
  have a: "0 \<le> v * r" using assms by simp
  have b: "v * r \<le> v" using assms by (simp add: mult_left_le)
  show "- v \<le> - v + (v - (- v)) * r" using a by (simp add: algebra_simps)
  show "- v + (v - (- v)) * r \<le> v" using b by (simp add: algebra_simps)
qed

lemma scaled_bounds:
  fixes b u v :: real
  assumes "0 \<le> b" "- v \<le> u" "u \<le> v"
  shows "b * (1 - v) \<le> b * (1 + u)" "b * (1 + u) \<le> b * (1 + v)"
  using assms by (simp_all add: mult_left_mono)

lemma uniform_Fin:
  "fst (random_uniform (Fin a) (Fin b) w) = Fin (a + (b - a) * unit_draws w (drawn w))"
  by (simp add: random_uniform_def minus_pyfloat_def)

lemma unit_rangeD: "unit_range w \<Longrightarrow> 0 \<le> unit_draws w k \<and> unit_draws w k < 1"
  by (simp add: unit_range_def)

lemma create_main_drop_radii:
  "create_main_drop opts x y (Fin a) w = (m, w') \<Longrightarrow>
   el_cx m = x \<and> el_cy m = y \<and> el_rx m = Fin (a * 0.6) \<and> el_ry m = Fin (a * 0.8)"
  by (auto simp: create_main_drop_eq)

lemma create_teardrop_main_path:
  "create_teardrop_main opts x y sz rot w = (m, w') \<Longrightarrow>
   path_d m = create_teardrop_path opts x y sz rot"
  by (auto simp: create_teardrop_main_eq)

lemma placement_bounds:
  fixes r W :: real
  assumes "0 \<le> r" "r < 1" "0 \<le> W"
  shows "0 \<le> 0 + (W - 0) * r" "0 + (W - 0) * r \<le> W" "0 < W \<longrightarrow> 0 + (W - 0) * r < W"
proof -
  show "0 \<le> 0 + (W - 0) * r" using assms by simp
  show "0 + (W - 0) * r \<le> W" using assms by (simp add: mult_left_le)
  show "0 < W \<longrightarrow> 0 + (W - 0) * r < W" using assms by simp
qed

subsection \<open>Where the body of effect raises\<close>

lemma error_all: "(e :: error) = ValueError"
  by (cases e) simp

lemma effect_loop_raises:
  assumes "js \<noteq> []" "is_inf (shadow_angle opts) \<or> is_inf (highlight_angle opts)"
  shows "\<exists>w'. effect_loop opts js bs sv kids w = (Raised ValueError, w')"
proof -
  from assms(1) obtain j rest where js: "js = j # rest" by (cases js) auto
  from assms(2) have "\<exists>w1. create_single_drop opts j bs sv w = (Raised ValueError, w1)"
    by (auto simp: create_single_drop_eq)
  with js show ?thesis by auto
qed

lemma td_effect_loop_raises:
  assumes "js \<noteq> []" "is_inf (shadow_angle opts) \<or> is_inf (highlight_angle opts)"
  shows "\<exists>w'. td_effect_loop opts js bs sv kids w = (Raised ValueError, w')"
proof -
  from assms(1) obtain j rest where js: "js = j # rest" by (cases js) auto
  from assms(2) have "\<exists>w1. create_single_teardrop opts j bs sv w = (Raised ValueError, w1)"
    by (auto simp: create_single_teardrop_eq)
  with js show ?thesis by auto
qed

lemma effect_body_raises_iff:
  "(\<exists>w1. effect_body opts w = (Raised ValueError, w1)) \<longleftrightarrow>
     0 < drop_count opts \<and> (is_inf (shadow_angle opts) \<or> is_inf (highlight_angle opts))"
proof (cases "0 < drop_count opts \<and> (is_inf (shadow_angle opts) \<or> is_inf (highlight_angle opts))")
  case True
  then have "[0 ..< nat (drop_count opts)] \<noteq> []" by simp
  from effect_loop_raises [OF this, of opts "drop_size opts" "size_variation opts" "[]" w] True
  show ?thesis by (auto simp: effect_body_def)
next
  case False
  show ?thesis
  proof (cases "0 < drop_count opts")
    case True
    with False have a: "\<not> is_inf (shadow_angle opts)" "\<not> is_inf (highlight_angle opts)" by auto
    from effect_loop_returns [OF a, of "[0 ..< nat (drop_count opts)]" "drop_size opts"
        "size_variation opts" "[]" w] False
    show ?thesis by (auto simp: effect_body_def)
  next
    case neg: False
    then have "[0 ..< nat (drop_count opts)] = []" by simp
    with False show ?thesis by (auto simp: effect_body_def)
  qed
qed

lemma td_effect_body_raises_iff:
  "(\<exists>w1. td_effect_body opts w = (Raised ValueError, w1)) \<longleftrightarrow>
     0 < drop_count opts \<and> (is_inf (shadow_angle opts) \<or> is_inf (highlight_angle opts))"
proof (cases "0 < drop_count opts \<and> (is_inf (shadow_angle opts) \<or> is_inf (highlight_angle opts))")
  case True
  then have "[0 ..< nat (drop_count opts)] \<noteq> []" by simp
  from td_effect_loop_raises [OF this, of opts "drop_size opts" "size_variation opts" "[]" w] True
  show ?thesis by (auto simp: td_effect_body_def)
next
  case False
  show ?thesis
  proof (cases "0 < drop_count opts")
    case True
    with False have a: "\<not> is_inf (shadow_angle opts)" "\<not> is_inf (highlight_angle opts)" by auto
    from td_effect_loop_returns [OF a, of "[0 ..< nat (drop_count opts)]" "drop_size opts"
        "size_variation opts" "[]" w] False
    show ?thesis by (auto simp: td_effect_body_def)
  next
    case neg: False
    then have "[0 ..< nat (drop_count opts)] = []" by simp
    with False show ?thesis by (auto simp: td_effect_body_def)
  qed
qed

lemma effect_layer:
  "layer (snd (effect opts w)) =
     (if 0 < drop_count opts \<and> (is_inf (shadow_angle opts) \<or> is_inf (highlight_angle opts))
      then layer w
      else layer w @ [Group ''Sweat Drops''
        (case fst (effect_loop opts [0 ..< nat (drop_count opts)] (drop_size opts)
                     (size_variation opts) [] w) of Returned kids \<Rightarrow> kids | Raised e \<Rightarrow> [])])"
proof -
  obtain r1 w1 where run: "effect_loop opts [0 ..< nat (drop_count opts)] (drop_size opts)
      (size_variation opts) [] w = (r1, w1)"
    by (cases "effect_loop opts [0 ..< nat (drop_count opts)] (drop_size opts)
      (size_variation opts) [] w")
  note f = effect_loop_frame [OF run]
  from effect_body_raises_iff [of opts w] run f show ?thesis
    by (cases r1) (auto simp: effect_def effect_body_def error_all)
qed

lemma td_effect_layer:
  "layer (snd (td_effect opts w)) =
     (if 0 < drop_count opts \<and> (is_inf (shadow_angle opts) \<or> is_inf (highlight_angle opts))
      then layer w
      else layer w @ [Group ''Teardrop Sweat Drops''
        (case fst (td_effect_loop opts [0 ..< nat (drop_count opts)] (drop_size opts)
                     (size_variation opts) [] w) of Returned kids \<Rightarrow> kids | Raised e \<Rightarrow> [])])"
proof -
  obtain r1 w1 where run: "td_effect_loop opts [0 ..< nat (drop_count opts)] (drop_size opts)
      (size_variation opts) [] w = (r1, w1)"
    by (cases "td_effect_loop opts [0 ..< nat (drop_count opts)] (drop_size opts)
      (size_variation opts) [] w")
  note f = td_effect_loop_frame [OF run]
  from td_effect_body_raises_iff [of opts w] run f show ?thesis
    by (cases r1) (auto simp: td_effect_def td_effect_body_def error_all)
qed

subsection \<open>Distinct identifiers\<close>

lemma upt_snoc_concat:
  "concat (map f [0 ..< Suc n]) = concat (map f [0 ..< n]) @ f n"
  by simp

lemma id_pairs_set:
  "set (concat (map (\<lambda>j. [p @ str_int (a j), q @ str_int (b j)]) [0 ..< n])) =
     (\<lambda>j. p @ str_int (a j)) ` {..< n} \<union> (\<lambda>j. q @ str_int (b j)) ` {..< n}"
  by (induction n) (auto simp: lessThan_Suc)

lemma distinct_id_pairs:
  fixes a b :: "nat \<Rightarrow> int"
  assumes "\<And>j. 0 \<le> a j" "\<And>j. 0 \<le> b j"
  shows "distinct (concat (map (\<lambda>j. [''shadowGradient_'' @ str_int (a j),
                                       ''dropGradient_'' @ str_int (b j)]) [0 ..< n])) \<longleftrightarrow>
         inj_on a {..< n} \<and> inj_on b {..< n}"
proof (induction n)
  case 0
  show ?case by simp
next
  case (Suc n)
  have sa: "\<And>j. (''shadowGradient_'' @ str_int (a n) = ''shadowGradient_'' @ str_int (a j))
      = (a n = a j)"
    using assms(1) by (auto dest: str_int_inj)
  have sb: "\<And>j. (''dropGradient_'' @ str_int (b n) = ''dropGradient_'' @ str_int (b j))
      = (b n = b j)"
    using assms(2) by (auto dest: str_int_inj)
  have ia: "inj_on a {..< Suc n} \<longleftrightarrow> inj_on a {..< n} \<and> a n \<notin> a ` {..< n}"
    by (auto simp: lessThan_Suc)
  have ib: "inj_on b {..< Suc n} \<longleftrightarrow> inj_on b {..< n} \<and> b n \<notin> b ` {..< n}"
    by (auto simp: lessThan_Suc)
  have na: "''shadowGradient_'' @ str_int (a n) \<notin>
        (\<lambda>j. ''shadowGradient_'' @ str_int (a j)) ` {..< n} \<longleftrightarrow> a n \<notin> a ` {..< n}"
    using sa by (auto simp: image_iff)
  have nb: "''dropGradient_'' @ str_int (b n) \<notin>
        (\<lambda>j. ''dropGradient_'' @ str_int (b j)) ` {..< n} \<longleftrightarrow> b n \<notin> b ` {..< n}"
    using sb by (auto simp: image_iff)
  have xa: "''shadowGradient_'' @ str_int (a n) \<notin>
        (\<lambda>j. ''dropGradient_'' @ str_int (b j)) ` {..< n}"
    by auto
  have xb: "''dropGradient_'' @ str_int (b n) \<notin>
        (\<lambda>j. ''shadowGradient_'' @ str_int (a j)) ` {..< n}"
    by auto
  have "distinct (concat (map (\<lambda>j. [''shadowGradient_'' @ str_int (a j),
                                       ''dropGradient_'' @ str_int (b j)]) [0 ..< Suc n])) \<longleftrightarrow>
        distinct (concat (map (\<lambda>j. [''shadowGradient_'' @ str_int (a j),
                                       ''dropGradient_'' @ str_int (b j)]) [0 ..< n])) \<and>
        ''shadowGradient_'' @ str_int (a n) \<notin>
          (\<lambda>j. ''shadowGradient_'' @ str_int (a j)) ` {..< n} \<and>
        ''dropGradient_'' @ str_int (b n) \<notin>
          (\<lambda>j. ''dropGradient_'' @ str_int (b j)) ` {..< n}"
    unfolding upt_snoc_concat distinct_append id_pairs_set using xa xb by auto
  with Suc.IH ia ib na nb show ?case by blast
qed

subsection \<open>The gradient identifiers of a run\<close>

lemma effect_loop_defs:
  assumes run: "effect_loop opts js bs sv kids w = (Returned out, w')"
  shows "\<exists>new. defs w' = defs w @ new \<and>
    map gradient_id new =
      concat (map (\<lambda>j. [''shadowGradient_'' @
                           str_int (1000 + int (int_draws w (drawn w + 5 * j + 3) mod 9000)),
                         ''dropGradient_'' @
                           str_int (1000 + int (int_draws w (drawn w + 5 * j + 4) mod 9000))])
                [0 ..< length js])"
proof -
  let ?F = "\<lambda>j. [''shadowGradient_'' @
                    str_int (1000 + int (int_draws w (drawn w + 5 * j + 3) mod 9000)),
                  ''dropGradient_'' @
                    str_int (1000 + int (int_draws w (drawn w + 5 * j + 4) mod 9000))]"
  let ?Q = "\<lambda>(seen :: nat list) (kids :: node list) w1.
    int_draws w1 = int_draws w \<and> drawn w1 = drawn w + 5 * length seen \<and>
    (\<exists>new. defs w1 = defs w @ new \<and>
       map gradient_id new = concat (map ?F [0 ..< length seen]))"
  have "?Q ([] @ js) out w'"
  proof (rule effect_loop_invariant [OF run, where Q = ?Q])
    show "?Q [] kids w" by simp
  next
    fix i seen kids w1 g w2
    assume q: "?Q seen kids w1"
      and one: "create_single_drop opts i bs sv w1 = (Returned g, w2)"
    from q obtain new where n: "defs w1 = defs w @ new"
      "map gradient_id new = concat (map ?F [0 ..< length seen])" by blast
    from q have k: "int_draws w1 = int_draws w" and d: "drawn w1 = drawn w + 5 * length seen"
      by simp_all
    from one have w2: "int_draws w2 = int_draws w1" "drawn w2 = drawn w1 + 5"
      "\<exists>a b. defs w2 = defs w1 @ [a, b] \<and> map gradient_id [a, b] =
         [''shadowGradient_'' @ str_int (1000 + int (int_draws w1 (drawn w1 + 3) mod 9000)),
          ''dropGradient_'' @ str_int (1000 + int (int_draws w1 (drawn w1 + 4) mod 9000))]"
      by (auto simp: create_single_drop_eq split: if_splits)
    from w2(3) obtain a b where ab: "defs w2 = defs w1 @ [a, b]"
      "map gradient_id [a, b] =
         [''shadowGradient_'' @ str_int (1000 + int (int_draws w1 (drawn w1 + 3) mod 9000)),
          ''dropGradient_'' @ str_int (1000 + int (int_draws w1 (drawn w1 + 4) mod 9000))]"
      by (elim exE conjE)
    have f: "map gradient_id [a, b] = ?F (length seen)"
      unfolding ab(2) k d by (simp add: add.assoc)
    have "defs w2 = defs w @ (new @ [a, b])" using ab(1) n(1) by simp
    moreover have "map gradient_id (new @ [a, b]) = concat (map ?F [0 ..< length (seen @ [i])])"
      using n(2) f by simp
    ultimately have "\<exists>new. defs w2 = defs w @ new \<and>
       map gradient_id new = concat (map ?F [0 ..< length (seen @ [i])])" by blast
    with w2(1,2) k d show "?Q (seen @ [i]) (kids @ [g]) w2" by simp
  qed
  then show ?thesis by simp
qed

lemma td_effect_loop_defs:
  assumes run: "td_effect_loop opts js bs sv kids w = (Returned out, w')"
  shows "\<exists>new. defs w' = defs w @ new \<and>
    map gradient_id new =
      concat (map (\<lambda>j. [''shadowGradient_'' @
                           str_int (1000 + int (int_draws w (drawn w + 6 * j + 4) mod 9000)),
                         ''dropGradient_'' @
                           str_int (1000 + int (int_draws w (drawn w + 6 * j + 5) mod 9000))])
                [0 ..< length js])"
proof -
  let ?F = "\<lambda>j. [''shadowGradient_'' @
                    str_int (1000 + int (int_draws w (drawn w + 6 * j + 4) mod 9000)),
                  ''dropGradient_'' @
                    str_int (1000 + int (int_draws w (drawn w + 6 * j + 5) mod 9000))]"
  let ?Q = "\<lambda>(seen :: nat list) (kids :: node list) w1.
    int_draws w1 = int_draws w \<and> drawn w1 = drawn w + 6 * length seen \<and>
    (\<exists>new. defs w1 = defs w @ new \<and>
       map gradient_id new = concat (map ?F [0 ..< length seen]))"
  have "?Q ([] @ js) out w'"
  proof (rule td_effect_loop_invariant [OF run, where Q = ?Q])
    show "?Q [] kids w" by simp
  next
    fix i seen kids w1 g w2
    assume q: "?Q seen kids w1"
      and one: "create_single_teardrop opts i bs sv w1 = (Returned g, w2)"
    from q obtain new where n: "defs w1 = defs w @ new"
      "map gradient_id new = concat (map ?F [0 ..< length seen])" by blast
    from q have k: "int_draws w1 = int_draws w" and d: "drawn w1 = drawn w + 6 * length seen"
      by simp_all
    from one have w2: "int_draws w2 = int_draws w1" "drawn w2 = drawn w1 + 6"
      "\<exists>a b. defs w2 = defs w1 @ [a, b] \<and> map gradient_id [a, b] =
         [''shadowGradient_'' @ str_int (1000 + int (int_draws w1 (drawn w1 + 4) mod 9000)),
          ''dropGradient_'' @ str_int (1000 + int (int_draws w1 (drawn w1 + 5) mod 9000))]"
      by (auto simp: create_single_teardrop_eq split: if_splits)
    from w2(3) obtain a b where ab: "defs w2 = defs w1 @ [a, b]"
      "map gradient_id [a, b] =
         [''shadowGradient_'' @ str_int (1000 + int (int_draws w1 (drawn w1 + 4) mod 9000)),
          ''dropGradient_'' @ str_int (1000 + int (int_draws w1 (drawn w1 + 5) mod 9000))]"
      by (elim exE conjE)
    have f: "map gradient_id [a, b] = ?F (length seen)"
      unfolding ab(2) k d by (simp add: add.assoc)
    have "defs w2 = defs w @ (new @ [a, b])" using ab(1) n(1) by simp
    moreover have "map gradient_id (new @ [a, b]) = concat (map ?F [0 ..< length (seen @ [i])])"
      using n(2) f by simp
    ultimately have "\<exists>new. defs w2 = defs w @ new \<and>
       map gradient_id new = concat (map ?F [0 ..< length (seen @ [i])])" by blast
    with w2(1,2) k d show "?Q (seen @ [i]) (kids @ [g]) w2" by simp
  qed
  then show ?thesis by simp
qed

section \<open>The claims\<close>

text \<open>
  C1. For options whose angles are not infinite (as all valid, finite options are) and with
  \<open>drop_count \<ge> 0\<close>, one run of \<^verbatim>\<open>effect\<close> returns and appends one main group with exactly
  \<open>drop_count\<close> drop groups, in index order: the group at position \<open>j\<close> is the one
  \<^verbatim>\<open>create_single_drop\<close> returned for index \<open>j\<close>, labelled with \<open>j + 1\<close>. Both variants.
\<close>

theorem drop_count_records:
  "(\<not> is_inf (shadow_angle opts) \<and> \<not> is_inf (highlight_angle opts) \<and> 0 \<le> drop_count opts \<longrightarrow>
      (\<exists>kids w'.
         effect opts w = (Returned (), w') \<and>
         layer w' = layer w @ [Group ''Sweat Drops'' kids] \<and>
         int (length kids) = drop_count opts \<and>
         (\<forall>j < length kids.
            label (kids ! j) = ''Drop_'' @ str_nat (j + 1) \<and>
            (\<exists>w0 w1. create_single_drop opts j (drop_size opts) (size_variation opts) w0
                       = (Returned (kids ! j), w1))))) \<and>
   (\<not> is_inf (shadow_angle topts) \<and> \<not> is_inf (highlight_angle topts) \<and> 0 \<le> drop_count topts \<longrightarrow>
      (\<exists>kids w'.
         td_effect topts w = (Returned (), w') \<and>
         layer w' = layer w @ [Group ''Teardrop Sweat Drops'' kids] \<and>
         int (length kids) = drop_count topts \<and>
         (\<forall>j < length kids.
            label (kids ! j) = ''Teardrop_'' @ str_nat (j + 1) \<and>
            (\<exists>w0 w1. create_single_teardrop topts j (drop_size topts) (size_variation topts) w0
                       = (Returned (kids ! j), w1)))))"
proof (intro conjI impI; elim conjE)
  assume a: "\<not> is_inf (shadow_angle opts)" "\<not> is_inf (highlight_angle opts)"
    and c: "0 \<le> drop_count opts"
  from effect_runs [OF a, of w] obtain kids w1 where
    eff: "effect opts w = (Returned (), w1\<lparr>layer := layer w @ [Group ''Sweat Drops'' kids]\<rparr>)"
    and len: "length kids = nat (drop_count opts)"
    and each: "\<forall>j < nat (drop_count opts). \<exists>w0 w2.
       create_single_drop opts j (drop_size opts) (size_variation opts) w0
         = (Returned (kids ! j), w2)" by blast
  have "\<forall>j < length kids.
            label (kids ! j) = ''Drop_'' @ str_nat (j + 1) \<and>
            (\<exists>w0 w1. create_single_drop opts j (drop_size opts) (size_variation opts) w0
                       = (Returned (kids ! j), w1))"
  proof (intro allI impI)
    fix j assume "j < length kids"
    with len each obtain w0 w2 where
      one: "create_single_drop opts j (drop_size opts) (size_variation opts) w0
         = (Returned (kids ! j), w2)" by auto
    from create_single_drop_Returned [OF one]
    have "label (kids ! j) = ''Drop_'' @ str_nat (j + 1)" by auto
    with one show "label (kids ! j) = ''Drop_'' @ str_nat (j + 1) \<and>
            (\<exists>w0 w1. create_single_drop opts j (drop_size opts) (size_variation opts) w0
                       = (Returned (kids ! j), w1))" by blast
  qed
  with eff len c show "\<exists>kids w'.
         effect opts w = (Returned (), w') \<and>
         layer w' = layer w @ [Group ''Sweat Drops'' kids] \<and>
         int (length kids) = drop_count opts \<and>
         (\<forall>j < length kids.
            label (kids ! j) = ''Drop_'' @ str_nat (j + 1) \<and>
            (\<exists>w0 w1. create_single_drop opts j (drop_size opts) (size_variation opts) w0
                       = (Returned (kids ! j), w1)))"
    by (intro exI [of _ kids] exI [of _ "w1\<lparr>layer := layer w @ [Group ''Sweat Drops'' kids]\<rparr>"])
       simp
next
  assume a: "\<not> is_inf (shadow_angle topts)" "\<not> is_inf (highlight_angle topts)"
    and c: "0 \<le> drop_count topts"
  from td_effect_runs [OF a, of w] obtain kids w1 where
    eff: "td_effect topts w
      = (Returned (), w1\<lparr>layer := layer w @ [Group ''Teardrop Sweat Drops'' kids]\<rparr>)"
    and len: "length kids = nat (drop_count topts)"
    and each: "\<forall>j < nat (drop_count topts). \<exists>w0 w2.
       create_single_teardrop topts j (drop_size topts) (size_variation topts) w0
         = (Returned (kids ! j), w2)" by blast
  have "\<forall>j < length kids.
            label (kids ! j) = ''Teardrop_'' @ str_nat (j + 1) \<and>
            (\<exists>w0 w1. create_single_teardrop topts j (drop_size topts) (size_variation topts) w0
                       = (Returned (kids ! j), w1))"
  proof (intro allI impI)
    fix j assume "j < length kids"
    with len each obtain w0 w2 where
      one: "create_single_teardrop topts j (drop_size topts) (size_variation topts) w0
         = (Returned (kids ! j), w2)" by auto
    from create_single_teardrop_Returned [OF one]
    have "label (kids ! j) = ''Teardrop_'' @ str_nat (j + 1)" by auto
    with one show "label (kids ! j) = ''Teardrop_'' @ str_nat (j + 1) \<and>
            (\<exists>w0 w1. create_single_teardrop topts j (drop_size topts) (size_variation topts) w0
                       = (Returned (kids ! j), w1))" by blast
  qed
  with eff len c show "\<exists>kids w'.
         td_effect topts w = (Returned (), w') \<and>
         layer w' = layer w @ [Group ''Teardrop Sweat Drops'' kids] \<and>
         int (length kids) = drop_count topts \<and>
         (\<forall>j < length kids.
            label (kids ! j) = ''Teardrop_'' @ str_nat (j + 1) \<and>
            (\<exists>w0 w1. create_single_teardrop topts j (drop_size topts) (size_variation topts) w0
                       = (Returned (kids ! j), w1)))"
    by (intro exI [of _ kids]
          exI [of _ "w1\<lparr>layer := layer w @ [Group ''Teardrop Sweat Drops'' kids]\<rparr>"]) simp
qed

theorem drop_count_records_witness:
  "(\<exists>kids w'.
      effect default_options (test_svg (\<lambda>k. 1 / 2) (\<lambda>k. k)) = (Returned (), w') \<and>
      layer w' = [Group ''Sweat Drops'' kids] \<and> length kids = 5 \<and>
      label (kids ! 0) = ''Drop_1'' \<and> label (kids ! 4) = ''Drop_5'') \<and>
   (\<exists>kids w'.
      td_effect td_default_options (test_svg (\<lambda>k. 1 / 2) (\<lambda>k. k)) = (Returned (), w') \<and>
      layer w' = [Group ''Teardrop Sweat Drops'' kids] \<and> length kids = 5 \<and>
      label (kids ! 0) = ''Teardrop_1'' \<and> label (kids ! 4) = ''Teardrop_5'')"
proof -
  note inst = drop_count_records [where opts = default_options and topts = td_default_options
      and w = "test_svg (\<lambda>k. 1 / 2) (\<lambda>k. k)"]
  have s: "str_nat 1 = ''1''" "str_nat 5 = ''5''"
    by (simp_all add: str_nat.simps digit_char_def)
  have pre: "\<not> is_inf (shadow_angle default_options) \<and> \<not> is_inf (highlight_angle default_options)
      \<and> 0 \<le> drop_count default_options"
    by (simp add: default_options_def)
  from inst pre obtain kids w' where
    k: "effect default_options (test_svg (\<lambda>k. 1 / 2) (\<lambda>k. k)) = (Returned (), w')"
      "layer w' = layer (test_svg (\<lambda>k. 1 / 2) (\<lambda>k. k)) @ [Group ''Sweat Drops'' kids]"
      "int (length kids) = drop_count default_options"
      "\<forall>j < length kids. label (kids ! j) = ''Drop_'' @ str_nat (j + 1) \<and>
          (\<exists>w0 w1. create_single_drop default_options j (drop_size default_options)
             (size_variation default_options) w0 = (Returned (kids ! j), w1))"
    by blast
  from k(3) have l: "length kids = 5" by (simp add: default_options_def)
  from k(4) l have "label (kids ! 0) = ''Drop_1''" "label (kids ! 4) = ''Drop_5''"
    using s by auto
  with k l have one: "\<exists>kids w'.
      effect default_options (test_svg (\<lambda>k. 1 / 2) (\<lambda>k. k)) = (Returned (), w') \<and>
      layer w' = [Group ''Sweat Drops'' kids] \<and> length kids = 5 \<and>
      label (kids ! 0) = ''Drop_1'' \<and> label (kids ! 4) = ''Drop_5''"
    by (auto simp: test_svg_def)
  have tpre: "\<not> is_inf (shadow_angle td_default_options) \<and>
      \<not> is_inf (highlight_angle td_default_options) \<and> 0 \<le> drop_count td_default_options"
    by (simp add: td_default_options_def)
  from inst tpre obtain tkids tw' where
    t: "td_effect td_default_options (test_svg (\<lambda>k. 1 / 2) (\<lambda>k. k)) = (Returned (), tw')"
      "layer tw' = layer (test_svg (\<lambda>k. 1 / 2) (\<lambda>k. k)) @ [Group ''Teardrop Sweat Drops'' tkids]"
      "int (length tkids) = drop_count td_default_options"
      "\<forall>j < length tkids. label (tkids ! j) = ''Teardrop_'' @ str_nat (j + 1) \<and>
          (\<exists>w0 w1. create_single_teardrop td_default_options j (drop_size td_default_options)
             (size_variation td_default_options) w0 = (Returned (tkids ! j), w1))"
    by blast
  from t(3) have tl: "length tkids = 5" by (simp add: td_default_options_def)
  from t(4) tl have "label (tkids ! 0) = ''Teardrop_1''" "label (tkids ! 4) = ''Teardrop_5''"
    using s by auto
  with t tl have two: "\<exists>kids w'.
      td_effect td_default_options (test_svg (\<lambda>k. 1 / 2) (\<lambda>k. k)) = (Returned (), w') \<and>
      layer w' = [Group ''Teardrop Sweat Drops'' kids] \<and> length kids = 5 \<and>
      label (kids ! 0) = ''Teardrop_1'' \<and> label (kids ! 4) = ''Teardrop_5''"
    by (auto simp: test_svg_def)
  from one two show ?thesis by blast
qed

text \<open>
  C2. For every drop that \<^verbatim>\<open>create_single_drop\<close> or \<^verbatim>\<open>create_single_teardrop\<close> returns, with
  \<open>base_size = b \<ge> 0\<close>, \<open>size_variation = v \<ge> 0\<close> and unit draws in \<open>[0, 1)\<close>: the size handed to the
  three shape builders is \<open>b * (1 + u)\<close>, where \<open>u = - v + (v - (- v)) * r\<close> is the image of the unit
  draw \<open>r\<close> under \<^verbatim>\<open>random.uniform(-v, v)\<close>; \<open>u\<close> lies in \<open>[- v, v]\<close> and the size in
  \<open>[b * (1 - v), b * (1 + v)]\<close>. Nothing clamps it: the draw 0 gives exactly \<open>b * (1 - v)\<close>, which
  is zero or negative for \<open>v \<ge> 1\<close>.
\<close>

theorem resolved_size_range:
  "(unit_range w \<and> 0 \<le> b \<and> 0 \<le> v \<and>
    create_single_drop opts i (Fin b) (Fin v) w = (Returned g, w') \<longrightarrow>
      (\<exists>u x y w3 s w4 m w5 h.
         u = - v + (v - (- v)) * unit_draws w (drawn w) \<and> - v \<le> u \<and> u \<le> v \<and>
         b * (1 - v) \<le> b * (1 + u) \<and> b * (1 + u) \<le> b * (1 + v) \<and>
         (unit_draws w (drawn w) = 0 \<longrightarrow> b * (1 + u) = b * (1 - v)) \<and>
         (unit_draws w (drawn w) = 0 \<and> 1 \<le> v \<longrightarrow> b * (1 + u) \<le> 0) \<and>
         create_shadow opts x y (Fin (b * (1 + u))) w3 = (Returned s, w4) \<and>
         create_main_drop opts x y (Fin (b * (1 + u))) w4 = (m, w5) \<and>
         create_highlight opts x y (Fin (b * (1 + u))) w5 = (Returned h, w') \<and>
         children g = [s, m, h] \<and>
         el_rx m = Fin (b * (1 + u) * 0.6) \<and> el_ry m = Fin (b * (1 + u) * 0.8))) \<and>
   (unit_range w \<and> 0 \<le> b \<and> 0 \<le> v \<and>
    create_single_teardrop topts i (Fin b) (Fin v) w = (Returned g, w') \<longrightarrow>
      (\<exists>u x y rot w4 s w5 m w6 h.
         u = - v + (v - (- v)) * unit_draws w (drawn w) \<and> - v \<le> u \<and> u \<le> v \<and>
         b * (1 - v) \<le> b * (1 + u) \<and> b * (1 + u) \<le> b * (1 + v) \<and>
         (unit_draws w (drawn w) = 0 \<longrightarrow> b * (1 + u) = b * (1 - v)) \<and>
         (unit_draws w (drawn w) = 0 \<and> 1 \<le> v \<longrightarrow> b * (1 + u) \<le> 0) \<and>
         create_teardrop_shadow topts x y (Fin (b * (1 + u))) rot w4 = (Returned s, w5) \<and>
         create_teardrop_main topts x y (Fin (b * (1 + u))) rot w5 = (m, w6) \<and>
         create_teardrop_highlight topts x y (Fin (b * (1 + u))) rot w6 = (Returned h, w') \<and>
         children g = [s, m, h] \<and>
         path_d m = create_teardrop_path topts x y (Fin (b * (1 + u))) rot))"
proof (intro conjI impI; elim conjE)
  assume ur: "unit_range w" and b: "0 \<le> b" and v: "0 \<le> v"
    and run: "create_single_drop opts i (Fin b) (Fin v) w = (Returned g, w')"
  define u where "u = - v + (v - (- v)) * unit_draws w (drawn w)"
  from unit_rangeD [OF ur, of "drawn w"]
  have r: "0 \<le> unit_draws w (drawn w)" "unit_draws w (drawn w) < 1" by simp_all
  have ub: "- v \<le> u" "u \<le> v"
    unfolding u_def by (rule jitter_bounds [OF r v])+
  from scaled_bounds [OF b ub] have sb: "b * (1 - v) \<le> b * (1 + u)" "b * (1 + u) \<le> b * (1 + v)" .
  have z: "unit_draws w (drawn w) = 0 \<longrightarrow> b * (1 + u) = b * (1 - v)"
    by (simp add: u_def)
  have z2: "unit_draws w (drawn w) = 0 \<and> 1 \<le> v \<longrightarrow> b * (1 + u) \<le> 0"
    using b by (auto simp: u_def mult_nonneg_nonpos)
  have sz: "Fin b * (Fin 1 + fst (random_uniform (- Fin v) (Fin v) w)) = Fin (b * (1 + u))"
    by (simp add: uniform_Fin u_def)
  from create_single_drop_Returned [OF run] obtain x y w3 s w4 m w5 h where
    parts: "create_shadow opts x y (Fin (b * (1 + u))) w3 = (Returned s, w4)"
      "create_main_drop opts x y (Fin (b * (1 + u))) w4 = (m, w5)"
      "create_highlight opts x y (Fin (b * (1 + u))) w5 = (Returned h, w')"
      "g = Group (''Drop_'' @ str_nat (i + 1)) [s, m, h]"
    unfolding sz by blast
  from create_main_drop_radii [OF parts(2)]
  have rad: "el_rx m = Fin (b * (1 + u) * 0.6)" "el_ry m = Fin (b * (1 + u) * 0.8)" by simp_all
  from parts(4) have ch: "children g = [s, m, h]" by simp
  from u_def ub sb z z2 parts(1-3) ch rad
  show "\<exists>u x y w3 s w4 m w5 h.
         u = - v + (v - (- v)) * unit_draws w (drawn w) \<and> - v \<le> u \<and> u \<le> v \<and>
         b * (1 - v) \<le> b * (1 + u) \<and> b * (1 + u) \<le> b * (1 + v) \<and>
         (unit_draws w (drawn w) = 0 \<longrightarrow> b * (1 + u) = b * (1 - v)) \<and>
         (unit_draws w (drawn w) = 0 \<and> 1 \<le> v \<longrightarrow> b * (1 + u) \<le> 0) \<and>
         create_shadow opts x y (Fin (b * (1 + u))) w3 = (Returned s, w4) \<and>
         create_main_drop opts x y (Fin (b * (1 + u))) w4 = (m, w5) \<and>
         create_highlight opts x y (Fin (b * (1 + u))) w5 = (Returned h, w') \<and>
         children g = [s, m, h] \<and>
         el_rx m = Fin (b * (1 + u) * 0.6) \<and> el_ry m = Fin (b * (1 + u) * 0.8)"
    by blast
next
  assume ur: "unit_range w" and b: "0 \<le> b" and v: "0 \<le> v"
    and run: "create_single_teardrop topts i (Fin b) (Fin v) w = (Returned g, w')"
  define u where "u = - v + (v - (- v)) * unit_draws w (drawn w)"
  from unit_rangeD [OF ur, of "drawn w"]
  have r: "0 \<le> unit_draws w (drawn w)" "unit_draws w (drawn w) < 1" by simp_all
  have ub: "- v \<le> u" "u \<le> v"
    unfolding u_def by (rule jitter_bounds [OF r v])+
  from scaled_bounds [OF b ub] have sb: "b * (1 - v) \<le> b * (1 + u)" "b * (1 + u) \<le> b * (1 + v)" .
  have z: "unit_draws w (drawn w) = 0 \<longrightarrow> b * (1 + u) = b * (1 - v)"
    by (simp add: u_def)
  have z2: "unit_draws w (drawn w) = 0 \<and> 1 \<le> v \<longrightarrow> b * (1 + u) \<le> 0"
    using b by (auto simp: u_def mult_nonneg_nonpos)
  have sz: "Fin b * (Fin 1 + fst (random_uniform (- Fin v) (Fin v) w)) = Fin (b * (1 + u))"
    by (simp add: uniform_Fin u_def)
  from create_single_teardrop_Returned [OF run] obtain x y rot w4 s w5 m w6 h where
    parts: "create_teardrop_shadow topts x y (Fin (b * (1 + u))) rot w4 = (Returned s, w5)"
      "create_teardrop_main topts x y (Fin (b * (1 + u))) rot w5 = (m, w6)"
      "create_teardrop_highlight topts x y (Fin (b * (1 + u))) rot w6 = (Returned h, w')"
      "g = Group (''Teardrop_'' @ str_nat (i + 1)) [s, m, h]"
    unfolding sz by blast
  from create_teardrop_main_path [OF parts(2)]
  have pd: "path_d m = create_teardrop_path topts x y (Fin (b * (1 + u))) rot" .
  from parts(4) have ch: "children g = [s, m, h]" by simp
  from u_def ub sb z z2 parts(1-3) ch pd
  show "\<exists>u x y rot w4 s w5 m w6 h.
         u = - v + (v - (- v)) * unit_draws w (drawn w) \<and> - v \<le> u \<and> u \<le> v \<and>
         b * (1 - v) \<le> b * (1 + u) \<and> b * (1 + u) \<le> b * (1 + v) \<and>
         (unit_draws w (drawn w) = 0 \<longrightarrow> b * (1 + u) = b * (1 - v)) \<and>
         (unit_draws w (drawn w) = 0 \<and> 1 \<le> v \<longrightarrow> b * (1 + u) \<le> 0) \<and>
         create_teardrop_shadow topts x y (Fin (b * (1 + u))) rot w4 = (Returned s, w5) \<and>
         create_teardrop_main topts x y (Fin (b * (1 + u))) rot w5 = (m, w6) \<and>
         create_teardrop_highlight topts x y (Fin (b * (1 + u))) rot w6 = (Returned h, w') \<and>
         children g = [s, m, h] \<and>
         path_d m = create_teardrop_path topts x y (Fin (b * (1 + u))) rot"
    by blast
qed

theorem resolved_size_range_witness:
  "(\<exists>g w' x y w4 s m w5 h.
      create_single_drop default_options 0 (Fin 20) (Fin (3 / 2))
        (test_svg (\<lambda>k. 0) (\<lambda>k. k)) = (Returned g, w') \<and>
      create_main_drop default_options x y (Fin (- 10)) w4 = (m, w5) \<and>
      children g = [s, m, h] \<and> el_rx m = Fin (- 6) \<and> el_ry m = Fin (- 8)) \<and>
   (\<exists>g w' x y rot w5 s m w6 h.
      create_single_teardrop td_default_options 0 (Fin 20) (Fin (3 / 2))
        (test_svg (\<lambda>k. 0) (\<lambda>k. k)) = (Returned g, w') \<and>
      create_teardrop_main td_default_options x y (Fin (- 10)) rot w5 = (m, w6) \<and>
      children g = [s, m, h] \<and>
      path_d m = create_teardrop_path td_default_options x y (Fin (- 10)) rot)"
proof -
  let ?w = "test_svg (\<lambda>k. 0) (\<lambda>k. k)"
  have ur: "unit_range ?w" by (simp add: unit_range_def test_svg_def)
  have u0: "unit_draws ?w (drawn ?w) = 0" by (simp add: test_svg_def)
  have "\<exists>g w'. create_single_drop default_options 0 (Fin 20) (Fin (3 / 2)) ?w = (Returned g, w')"
    by (simp add: create_single_drop_eq default_options_def)
  then obtain g w' where
    run: "create_single_drop default_options 0 (Fin 20) (Fin (3 / 2)) ?w = (Returned g, w')"
    by blast
  from resolved_size_range [where opts = default_options and i = 0 and b = 20 and v = "3 / 2"
      and w = ?w and g = g and w' = w', THEN conjunct1] ur run
  obtain u x y w4 s m w5 h where
    p: "u = - (3 / 2) + (3 / 2 - (- (3 / 2))) * unit_draws ?w (drawn ?w)"
      "create_main_drop default_options x y (Fin (20 * (1 + u))) w4 = (m, w5)"
      "children g = [s, m, h]"
      "el_rx m = Fin (20 * (1 + u) * 0.6)" "el_ry m = Fin (20 * (1 + u) * 0.8)"
    by auto
  from p(1) u0 have u: "u = - (3 / 2)" by simp
  from run p(2-5) have one: "\<exists>g w' x y w4 s m w5 h.
      create_single_drop default_options 0 (Fin 20) (Fin (3 / 2)) ?w = (Returned g, w') \<and>
      create_main_drop default_options x y (Fin (- 10)) w4 = (m, w5) \<and>
      children g = [s, m, h] \<and> el_rx m = Fin (- 6) \<and> el_ry m = Fin (- 8)"
    unfolding u by simp blast
  have "\<exists>g w'. create_single_teardrop td_default_options 0 (Fin 20) (Fin (3 / 2)) ?w
      = (Returned g, w')"
    by (simp add: create_single_teardrop_eq td_default_options_def)
  then obtain tg tw' where
    trun: "create_single_teardrop td_default_options 0 (Fin 20) (Fin (3 / 2)) ?w
      = (Returned tg, tw')"
    by blast
  from resolved_size_range [where topts = td_default_options and i = 0 and b = 20
      and v = "3 / 2" and w = ?w and g = tg and w' = tw', THEN conjunct2] ur trun
  obtain tu tx ty rot tw5 ts tm tw6 th where
    q: "tu = - (3 / 2) + (3 / 2 - (- (3 / 2))) * unit_draws ?w (drawn ?w)"
      "create_teardrop_main td_default_options tx ty (Fin (20 * (1 + tu))) rot tw5 = (tm, tw6)"
      "children tg = [ts, tm, th]"
      "path_d tm = create_teardrop_path td_default_options tx ty (Fin (20 * (1 + tu))) rot"
    by auto
  from q(1) u0 have tu: "tu = - (3 / 2)" by simp
  from trun q(2-4) have two: "\<exists>g w' x y rot w5 s m w6 h.
      create_single_teardrop td_default_options 0 (Fin 20) (Fin (3 / 2)) ?w = (Returned g, w') \<and>
      create_teardrop_main td_default_options x y (Fin (- 10)) rot w5 = (m, w6) \<and>
      children g = [s, m, h] \<and>
      path_d m = create_teardrop_path td_default_options x y (Fin (- 10)) rot"
    unfolding tu by simp blast
  from one two show ?thesis by blast
qed

text \<open>
  C3, as amended. For every returned drop of either variant, with finite \<open>area_width = W \<ge> 0\<close>,
  \<open>area_height = H \<ge> 0\<close> and unit draws in \<open>[0, 1)\<close>, the centre \<open>(x, y)\<close> at which the three shapes
  are built satisfies \<open>0 \<le> x \<le> W\<close> and \<open>0 \<le> y \<le> H\<close>, and \<open>x < W\<close> where \<open>W > 0\<close>, \<open>y < H\<close> where
  \<open>H > 0\<close>. The claim as stated (always \<open>x < area_width\<close>) fails for \<open>area_width = 0\<close>, where the
  centre is at 0: see the counterexample.
\<close>

theorem position_in_area:
  "(unit_range w \<and> area_width opts = Fin W \<and> area_height opts = Fin H \<and> 0 \<le> W \<and> 0 \<le> H \<and>
    create_single_drop opts i bs sv w = (Returned g, w') \<longrightarrow>
      (\<exists>x y sz w3 s w4 m w5 h.
         0 \<le> x \<and> x \<le> W \<and> (0 < W \<longrightarrow> x < W) \<and> 0 \<le> y \<and> y \<le> H \<and> (0 < H \<longrightarrow> y < H) \<and>
         create_shadow opts (Fin x) (Fin y) sz w3 = (Returned s, w4) \<and>
         create_main_drop opts (Fin x) (Fin y) sz w4 = (m, w5) \<and>
         create_highlight opts (Fin x) (Fin y) sz w5 = (Returned h, w') \<and>
         children g = [s, m, h] \<and> el_cx m = Fin x \<and> el_cy m = Fin y)) \<and>
   (unit_range w \<and> area_width topts = Fin W \<and> area_height topts = Fin H \<and> 0 \<le> W \<and> 0 \<le> H \<and>
    create_single_teardrop topts i bs sv w = (Returned g, w') \<longrightarrow>
      (\<exists>x y sz rot w4 s w5 m w6 h.
         0 \<le> x \<and> x \<le> W \<and> (0 < W \<longrightarrow> x < W) \<and> 0 \<le> y \<and> y \<le> H \<and> (0 < H \<longrightarrow> y < H) \<and>
         create_teardrop_shadow topts (Fin x) (Fin y) sz rot w4 = (Returned s, w5) \<and>
         create_teardrop_main topts (Fin x) (Fin y) sz rot w5 = (m, w6) \<and>
         create_teardrop_highlight topts (Fin x) (Fin y) sz rot w6 = (Returned h, w') \<and>
         children g = [s, m, h] \<and>
         path_d m = create_teardrop_path topts (Fin x) (Fin y) sz rot))"
proof (intro conjI impI; elim conjE)
  assume ur: "unit_range w" and aw: "area_width opts = Fin W" and ah: "area_height opts = Fin H"
    and W: "0 \<le> W" and H: "0 \<le> H"
    and run: "create_single_drop opts i bs sv w = (Returned g, w')"
  define x where "x = 0 + (W - 0) * unit_draws w (Suc (drawn w))"
  define y where "y = 0 + (H - 0) * unit_draws w (Suc (Suc (drawn w)))"
  from unit_rangeD [OF ur, of "Suc (drawn w)"]
  have rx: "0 \<le> unit_draws w (Suc (drawn w))" "unit_draws w (Suc (drawn w)) < 1" by simp_all
  from unit_rangeD [OF ur, of "Suc (Suc (drawn w))"]
  have ry: "0 \<le> unit_draws w (Suc (Suc (drawn w)))" "unit_draws w (Suc (Suc (drawn w))) < 1"
    by simp_all
  have bx: "0 \<le> x" "x \<le> W" "0 < W \<longrightarrow> x < W"
    unfolding x_def by (rule placement_bounds [OF rx W])+
  have "by": "0 \<le> y" "y \<le> H" "0 < H \<longrightarrow> y < H"
    unfolding y_def by (rule placement_bounds [OF ry H])+
  have ex: "fst (random_uniform (Fin 0) (area_width opts) (w\<lparr>drawn := Suc (drawn w)\<rparr>)) = Fin x"
    by (simp add: aw uniform_Fin x_def)
  have ey: "fst (random_uniform (Fin 0) (area_height opts) (w\<lparr>drawn := Suc (Suc (drawn w))\<rparr>))
      = Fin y"
    by (simp add: ah uniform_Fin y_def)
  from create_single_drop_Returned [OF run] obtain sz w3 s w4 m w5 h where
    parts: "create_shadow opts (Fin x) (Fin y) sz w3 = (Returned s, w4)"
      "create_main_drop opts (Fin x) (Fin y) sz w4 = (m, w5)"
      "create_highlight opts (Fin x) (Fin y) sz w5 = (Returned h, w')"
      "g = Group (''Drop_'' @ str_nat (i + 1)) [s, m, h]"
    unfolding ex ey by blast
  from parts(2) have c: "el_cx m = Fin x" "el_cy m = Fin y"
    by (auto simp: create_main_drop_eq)
  from parts(4) have ch: "children g = [s, m, h]" by simp
  from bx "by" parts(1-3) ch c
  show "\<exists>x y sz w3 s w4 m w5 h.
         0 \<le> x \<and> x \<le> W \<and> (0 < W \<longrightarrow> x < W) \<and> 0 \<le> y \<and> y \<le> H \<and> (0 < H \<longrightarrow> y < H) \<and>
         create_shadow opts (Fin x) (Fin y) sz w3 = (Returned s, w4) \<and>
         create_main_drop opts (Fin x) (Fin y) sz w4 = (m, w5) \<and>
         create_highlight opts (Fin x) (Fin y) sz w5 = (Returned h, w') \<and>
         children g = [s, m, h] \<and> el_cx m = Fin x \<and> el_cy m = Fin y"
    by blast
next
  assume ur: "unit_range w" and aw: "area_width topts = Fin W"
    and ah: "area_height topts = Fin H" and W: "0 \<le> W" and H: "0 \<le> H"
    and run: "create_single_teardrop topts i bs sv w = (Returned g, w')"
  define x where "x = 0 + (W - 0) * unit_draws w (Suc (drawn w))"
  define y where "y = 0 + (H - 0) * unit_draws w (Suc (Suc (drawn w)))"
  from unit_rangeD [OF ur, of "Suc (drawn w)"]
  have rx: "0 \<le> unit_draws w (Suc (drawn w))" "unit_draws w (Suc (drawn w)) < 1" by simp_all
  from unit_rangeD [OF ur, of "Suc (Suc (drawn w))"]
  have ry: "0 \<le> unit_draws w (Suc (Suc (drawn w)))" "unit_draws w (Suc (Suc (drawn w))) < 1"
    by simp_all
  have bx: "0 \<le> x" "x \<le> W" "0 < W \<longrightarrow> x < W"
    unfolding x_def by (rule placement_bounds [OF rx W])+
  have "by": "0 \<le> y" "y \<le> H" "0 < H \<longrightarrow> y < H"
    unfolding y_def by (rule placement_bounds [OF ry H])+
  have ex: "fst (random_uniform (Fin 0) (area_width topts) (w\<lparr>drawn := Suc (drawn w)\<rparr>)) = Fin x"
    by (simp add: aw uniform_Fin x_def)
  have ey: "fst (random_uniform (Fin 0) (area_height topts) (w\<lparr>drawn := Suc (Suc (drawn w))\<rparr>))
      = Fin y"
    by (simp add: ah uniform_Fin y_def)
  from create_single_teardrop_Returned [OF run] obtain sz rot w4 s w5 m w6 h where
    parts: "create_teardrop_shadow topts (Fin x) (Fin y) sz rot w4 = (Returned s, w5)"
      "create_teardrop_main topts (Fin x) (Fin y) sz rot w5 = (m, w6)"
      "create_teardrop_highlight topts (Fin x) (Fin y) sz rot w6 = (Returned h, w')"
      "g = Group (''Teardrop_'' @ str_nat (i + 1)) [s, m, h]"
    unfolding ex ey by blast
  from create_teardrop_main_path [OF parts(2)]
  have pd: "path_d m = create_teardrop_path topts (Fin x) (Fin y) sz rot" .
  from parts(4) have ch: "children g = [s, m, h]" by simp
  from bx "by" parts(1-3) ch pd
  show "\<exists>x y sz rot w4 s w5 m w6 h.
         0 \<le> x \<and> x \<le> W \<and> (0 < W \<longrightarrow> x < W) \<and> 0 \<le> y \<and> y \<le> H \<and> (0 < H \<longrightarrow> y < H) \<and>
         create_teardrop_shadow topts (Fin x) (Fin y) sz rot w4 = (Returned s, w5) \<and>
         create_teardrop_main topts (Fin x) (Fin y) sz rot w5 = (m, w6) \<and>
         create_teardrop_highlight topts (Fin x) (Fin y) sz rot w6 = (Returned h, w') \<and>
         children g = [s, m, h] \<and>
         path_d m = create_teardrop_path topts (Fin x) (Fin y) sz rot"
    by blast
qed

theorem position_in_area_witness:
  "(\<exists>g w' x y sz w4 s m w5 h.
      create_single_drop default_options 0 (Fin 20) (Fin 0.3)
        (test_svg (\<lambda>k. 1 / 2) (\<lambda>k. k)) = (Returned g, w') \<and>
      0 \<le> x \<and> x < 200 \<and> 0 \<le> y \<and> y < 200 \<and>
      create_main_drop default_options (Fin x) (Fin y) sz w4 = (m, w5) \<and>
      children g = [s, m, h] \<and> el_cx m = Fin x \<and> el_cy m = Fin y) \<and>
   (\<exists>g w' x y sz rot w5 s m w6 h.
      create_single_teardrop td_default_options 0 (Fin 20) (Fin 0.3)
        (test_svg (\<lambda>k. 1 / 2) (\<lambda>k. k)) = (Returned g, w') \<and>
      0 \<le> x \<and> x < 200 \<and> 0 \<le> y \<and> y < 200 \<and>
      create_teardrop_main td_default_options (Fin x) (Fin y) sz rot w5 = (m, w6) \<and>
      children g = [s, m, h] \<and>
      path_d m = create_teardrop_path td_default_options (Fin x) (Fin y) sz rot)"
proof -
  let ?w = "test_svg (\<lambda>k. 1 / 2) (\<lambda>k. k)"
  have ur: "unit_range ?w" by (simp add: unit_range_def test_svg_def)
  have a: "area_width default_options = Fin 200" "area_height default_options = Fin 200"
    by (simp_all add: default_options_def)
  have "\<exists>g w'. create_single_drop default_options 0 (Fin 20) (Fin 0.3) ?w = (Returned g, w')"
    by (simp add: create_single_drop_eq default_options_def)
  then obtain g w' where
    run: "create_single_drop default_options 0 (Fin 20) (Fin 0.3) ?w = (Returned g, w')"
    by blast
  from position_in_area [where opts = default_options and i = 0 and bs = "Fin 20"
      and sv = "Fin 0.3" and w = ?w and g = g and w' = w' and W = 200 and H = 200,
      THEN conjunct1] ur a run
  have "\<exists>x y sz w4 s m w5 h.
      0 \<le> x \<and> x < 200 \<and> 0 \<le> y \<and> y < 200 \<and>
      create_main_drop default_options (Fin x) (Fin y) sz w4 = (m, w5) \<and>
      children g = [s, m, h] \<and> el_cx m = Fin x \<and> el_cy m = Fin y"
    by simp blast
  with run have one: "\<exists>g w' x y sz w4 s m w5 h.
      create_single_drop default_options 0 (Fin 20) (Fin 0.3) ?w = (Returned g, w') \<and>
      0 \<le> x \<and> x < 200 \<and> 0 \<le> y \<and> y < 200 \<and>
      create_main_drop default_options (Fin x) (Fin y) sz w4 = (m, w5) \<and>
      children g = [s, m, h] \<and> el_cx m = Fin x \<and> el_cy m = Fin y"
    by blast
  have b: "area_width td_default_options = Fin 200" "area_height td_default_options = Fin 200"
    by (simp_all add: td_default_options_def)
  have "\<exists>g w'. create_single_teardrop td_default_options 0 (Fin 20) (Fin 0.3) ?w
      = (Returned g, w')"
    by (simp add: create_single_teardrop_eq td_default_options_def)
  then obtain tg tw' where
    trun: "create_single_teardrop td_default_options 0 (Fin 20) (Fin 0.3) ?w = (Returned tg, tw')"
    by blast
  from position_in_area [where topts = td_default_options and i = 0 and bs = "Fin 20"
      and sv = "Fin 0.3" and w = ?w and g = tg and w' = tw' and W = 200 and H = 200,
      THEN conjunct2] ur b trun
  have "\<exists>x y sz rot w5 s m w6 h.
      0 \<le> x \<and> x < 200 \<and> 0 \<le> y \<and> y < 200 \<and>
      create_teardrop_main td_default_options (Fin x) (Fin y) sz rot w5 = (m, w6) \<and>
      children tg = [s, m, h] \<and>
      path_d m = create_teardrop_path td_default_options (Fin x) (Fin y) sz rot"
    by simp blast
  with trun have two: "\<exists>g w' x y sz rot w5 s m w6 h.
      create_single_teardrop td_default_options 0 (Fin 20) (Fin 0.3) ?w = (Returned g, w') \<and>
      0 \<le> x \<and> x < 200 \<and> 0 \<le> y \<and> y < 200 \<and>
      create_teardrop_main td_default_options (Fin x) (Fin y) sz rot w5 = (m, w6) \<and>
      children g = [s, m, h] \<and>
      path_d m = create_teardrop_path td_default_options (Fin x) (Fin y) sz rot"
    by blast
  from one two show ?thesis by blast
qed

text \<open>
  The input of the specification's own example, \<open>area_width = area_height = 0\<close>: the drop is
  built at \<open>(0, 0)\<close>, and no \<open>x\<close> with \<open>0 \<le> x < 0\<close> exists.
\<close>

theorem position_counterexample:
  "\<exists>s m h w'.
     create_single_drop
       (default_options\<lparr>drop_count := 1, size_variation := Fin 0, area_width := Fin 0,
          area_height := Fin 0\<rparr>) 0 (Fin 20) (Fin 0)
       (test_svg (\<lambda>k. 1 / 2) (\<lambda>k. k)) = (Returned (Group ''Drop_1'' [s, m, h]), w') \<and>
     el_cx m = Fin 0 \<and> el_cy m = Fin 0 \<and>
     \<not> (\<exists>x W. el_cx m = Fin x \<and>
            area_width (default_options\<lparr>drop_count := 1, size_variation := Fin 0,
              area_width := Fin 0, area_height := Fin 0\<rparr>) = Fin W \<and> 0 \<le> x \<and> x < W)"
  by (simp add: create_single_drop_eq default_options_def test_svg_def str_nat.simps
      digit_char_def minus_pyfloat_def)

text \<open>
  C4. In both variants the shadow gradient is linear with exactly the two stops
  \<open>(0%, #000000, shadow_opacity)\<close> and \<open>(100%, #000000, 0.0)\<close>, and the body gradient is radial with
  centre \<open>(0.3, 0.3)\<close>, radius \<open>0.7\<close> and exactly the three stops \<open>(0%, #ffffff, 0.0)\<close>,
  \<open>(37%, #121212, 0.014)\<close>, \<open>(100%, #ffffff, 0.286)\<close>. The gradient functions of the two files are
  equal, and every returned drop adds exactly these two gradients, whatever its index, size,
  position and the state of the document; its shadow and body refer to them by their identifiers.
\<close>

theorem gradient_stops_fixed:
  "(\<exists>gid. create_shadow_gradient opts w =
      (gid, w\<lparr>drawn := Suc (drawn w),
              defs := defs w @
                [LinearGradient gid
                   [Stop ''0%'' [(''stop-color'', Text ''#000000''),
                                 (''stop-opacity'', Number (shadow_opacity opts))],
                    Stop ''100%'' [(''stop-color'', Text ''#000000''),
                                   (''stop-opacity'', Text ''0.0'')]]]\<rparr>)) \<and>
   (\<exists>gid. create_drop_gradient opts w =
      (gid, w\<lparr>drawn := Suc (drawn w),
              defs := defs w @
                [RadialGradient gid ''0.3'' ''0.3'' ''0.7''
                   [Stop ''0%'' [(''stop-color'', Text ''#ffffff''),
                                 (''stop-opacity'', Text ''0.0'')],
                    Stop ''37%'' [(''stop-color'', Text ''#121212''),
                                  (''stop-opacity'', Text ''0.014'')],
                    Stop ''100%'' [(''stop-color'', Text ''#ffffff''),
                                   (''stop-opacity'', Text ''0.286'')]]]\<rparr>)) \<and>
   td_create_shadow_gradient topts w =
     create_shadow_gradient (opts\<lparr>shadow_opacity := shadow_opacity topts\<rparr>) w \<and>
   td_create_drop_gradient topts w = create_drop_gradient opts w \<and>
   (create_single_drop opts i bs sv w = (Returned g, w') \<longrightarrow>
      (\<exists>sid did s m h.
         children g = [s, m, h] \<and>
         map_of (node_style s) ''fill'' = Some (Text (''url(#'' @ sid @ '')'')) \<and>
         map_of (node_style m) ''fill'' = Some (Text (''url(#'' @ did @ '')'')) \<and>
         defs w' = defs w @
           [LinearGradient sid
              [Stop ''0%'' [(''stop-color'', Text ''#000000''),
                            (''stop-opacity'', Number (shadow_opacity opts))],
               Stop ''100%'' [(''stop-color'', Text ''#000000''),
                              (''stop-opacity'', Text ''0.0'')]],
            RadialGradient did ''0.3'' ''0.3'' ''0.7''
              [Stop ''0%'' [(''stop-color'', Text ''#ffffff''),
                            (''stop-opacity'', Text ''0.0'')],
               Stop ''37%'' [(''stop-color'', Text ''#121212''),
                             (''stop-opacity'', Text ''0.014'')],
               Stop ''100%'' [(''stop-color'', Text ''#ffffff''),
                              (''stop-opacity'', Text ''0.286'')]]])) \<and>
   (create_single_teardrop topts i bs sv w = (Returned g, w') \<longrightarrow>
      (\<exists>sid did s m h.
         children g = [s, m, h] \<and>
         map_of (node_style s) ''fill'' = Some (Text (''url(#'' @ sid @ '')'')) \<and>
         map_of (node_style m) ''fill'' = Some (Text (''url(#'' @ did @ '')'')) \<and>
         defs w' = defs w @
           [LinearGradient sid
              [Stop ''0%'' [(''stop-color'', Text ''#000000''),
                            (''stop-opacity'', Number (shadow_opacity topts))],
               Stop ''100%'' [(''stop-color'', Text ''#000000''),
                              (''stop-opacity'', Text ''0.0'')]],
            RadialGradient did ''0.3'' ''0.3'' ''0.7''
              [Stop ''0%'' [(''stop-color'', Text ''#ffffff''),
                            (''stop-opacity'', Text ''0.0'')],
               Stop ''37%'' [(''stop-color'', Text ''#121212''),
                             (''stop-opacity'', Text ''0.014'')],
               Stop ''100%'' [(''stop-color'', Text ''#ffffff''),
                              (''stop-opacity'', Text ''0.286'')]]]))"
proof (intro conjI impI)
  show "\<exists>gid. create_shadow_gradient opts w =
      (gid, w\<lparr>drawn := Suc (drawn w),
              defs := defs w @
                [LinearGradient gid
                   [Stop ''0%'' [(''stop-color'', Text ''#000000''),
                                 (''stop-opacity'', Number (shadow_opacity opts))],
                    Stop ''100%'' [(''stop-color'', Text ''#000000''),
                                   (''stop-opacity'', Text ''0.0'')]]]\<rparr>)"
    by (simp add: create_shadow_gradient_eq)
next
  show "\<exists>gid. create_drop_gradient opts w =
      (gid, w\<lparr>drawn := Suc (drawn w),
              defs := defs w @
                [RadialGradient gid ''0.3'' ''0.3'' ''0.7''
                   [Stop ''0%'' [(''stop-color'', Text ''#ffffff''),
                                 (''stop-opacity'', Text ''0.0'')],
                    Stop ''37%'' [(''stop-color'', Text ''#121212''),
                                  (''stop-opacity'', Text ''0.014'')],
                    Stop ''100%'' [(''stop-color'', Text ''#ffffff''),
                                   (''stop-opacity'', Text ''0.286'')]]]\<rparr>)"
    by (simp add: create_drop_gradient_eq)
next
  show "td_create_shadow_gradient topts w =
     create_shadow_gradient (opts\<lparr>shadow_opacity := shadow_opacity topts\<rparr>) w"
    by (simp add: td_create_shadow_gradient_eq create_shadow_gradient_eq)
next
  show "td_create_drop_gradient topts w = create_drop_gradient opts w"
    by (simp add: td_create_drop_gradient_eq create_drop_gradient_eq)
next
  assume "create_single_drop opts i bs sv w = (Returned g, w')"
  then show "\<exists>sid did s m h.
         children g = [s, m, h] \<and>
         map_of (node_style s) ''fill'' = Some (Text (''url(#'' @ sid @ '')'')) \<and>
         map_of (node_style m) ''fill'' = Some (Text (''url(#'' @ did @ '')'')) \<and>
         defs w' = defs w @
           [LinearGradient sid
              [Stop ''0%'' [(''stop-color'', Text ''#000000''),
                            (''stop-opacity'', Number (shadow_opacity opts))],
               Stop ''100%'' [(''stop-color'', Text ''#000000''),
                              (''stop-opacity'', Text ''0.0'')]],
            RadialGradient did ''0.3'' ''0.3'' ''0.7''
              [Stop ''0%'' [(''stop-color'', Text ''#ffffff''),
                            (''stop-opacity'', Text ''0.0'')],
               Stop ''37%'' [(''stop-color'', Text ''#121212''),
                             (''stop-opacity'', Text ''0.014'')],
               Stop ''100%'' [(''stop-color'', Text ''#ffffff''),
                              (''stop-opacity'', Text ''0.286'')]]]"
    by (auto simp: create_single_drop_eq split: if_splits)
next
  assume "create_single_teardrop topts i bs sv w = (Returned g, w')"
  then show "\<exists>sid did s m h.
         children g = [s, m, h] \<and>
         map_of (node_style s) ''fill'' = Some (Text (''url(#'' @ sid @ '')'')) \<and>
         map_of (node_style m) ''fill'' = Some (Text (''url(#'' @ did @ '')'')) \<and>
         defs w' = defs w @
           [LinearGradient sid
              [Stop ''0%'' [(''stop-color'', Text ''#000000''),
                            (''stop-opacity'', Number (shadow_opacity topts))],
               Stop ''100%'' [(''stop-color'', Text ''#000000''),
                              (''stop-opacity'', Text ''0.0'')]],
            RadialGradient did ''0.3'' ''0.3'' ''0.7''
              [Stop ''0%'' [(''stop-color'', Text ''#ffffff''),
                            (''stop-opacity'', Text ''0.0'')],
               Stop ''37%'' [(''stop-color'', Text ''#121212''),
                             (''stop-opacity'', Text ''0.014'')],
               Stop ''100%'' [(''stop-color'', Text ''#ffffff''),
                              (''stop-opacity'', Text ''0.286'')]]]"
    by (auto simp: create_single_teardrop_eq split: if_splits)
qed

theorem gradient_stops_fixed_witness:
  "(\<exists>g w' sid did s m h.
      create_single_drop default_options 0 (Fin 20) (Fin 0.3)
        (test_svg (\<lambda>k. 1 / 2) (\<lambda>k. k)) = (Returned g, w') \<and>
      children g = [s, m, h] \<and>
      map_of (node_style s) ''fill'' = Some (Text (''url(#'' @ sid @ '')'')) \<and>
      map_of (node_style m) ''fill'' = Some (Text (''url(#'' @ did @ '')'')) \<and>
      defs w' =
        [LinearGradient sid
           [Stop ''0%'' [(''stop-color'', Text ''#000000''),
                         (''stop-opacity'', Number (Fin 0.515))],
            Stop ''100%'' [(''stop-color'', Text ''#000000''),
                           (''stop-opacity'', Text ''0.0'')]],
         RadialGradient did ''0.3'' ''0.3'' ''0.7''
           [Stop ''0%'' [(''stop-color'', Text ''#ffffff''),
                         (''stop-opacity'', Text ''0.0'')],
            Stop ''37%'' [(''stop-color'', Text ''#121212''),
                          (''stop-opacity'', Text ''0.014'')],
            Stop ''100%'' [(''stop-color'', Text ''#ffffff''),
                           (''stop-opacity'', Text ''0.286'')]]]) \<and>
   (\<exists>g w' sid did s m h.
      create_single_teardrop td_default_options 0 (Fin 20) (Fin 0.3)
        (test_svg (\<lambda>k. 1 / 2) (\<lambda>k. k)) = (Returned g, w') \<and>
      children g = [s, m, h] \<and>
      map_of (node_style s) ''fill'' = Some (Text (''url(#'' @ sid @ '')'')) \<and>
      map_of (node_style m) ''fill'' = Some (Text (''url(#'' @ did @ '')'')) \<and>
      defs w' =
        [LinearGradient sid
           [Stop ''0%'' [(''stop-color'', Text ''#000000''),
                         (''stop-opacity'', Number (Fin 0.2))],
            Stop ''100%'' [(''stop-color'', Text ''#000000''),
                           (''stop-opacity'', Text ''0.0'')]],
         RadialGradient did ''0.3'' ''0.3'' ''0.7''
           [Stop ''0%'' [(''stop-color'', Text ''#ffffff''),
                         (''stop-opacity'', Text ''0.0'')],
            Stop ''37%'' [(''stop-color'', Text ''#121212''),
                          (''stop-opacity'', Text ''0.014'')],
            Stop ''100%'' [(''stop-color'', Text ''#ffffff''),
                           (''stop-opacity'', Text ''0.286'')]]])"
proof -
  let ?w = "test_svg (\<lambda>k. 1 / 2) (\<lambda>k. k)"
  have d: "defs ?w = []" by (simp add: test_svg_def)
  have so: "shadow_opacity default_options = Fin 0.515"
    "shadow_opacity td_default_options = Fin 0.2"
    by (simp_all add: default_options_def td_default_options_def)
  have "\<exists>g w'. create_single_drop default_options 0 (Fin 20) (Fin 0.3) ?w = (Returned g, w')"
    by (simp add: create_single_drop_eq default_options_def)
  then obtain g w' where
    run: "create_single_drop default_options 0 (Fin 20) (Fin 0.3) ?w = (Returned g, w')"
    by blast
  have "\<exists>g w'. create_single_teardrop td_default_options 0 (Fin 20) (Fin 0.3) ?w
      = (Returned g, w')"
    by (simp add: create_single_teardrop_eq td_default_options_def)
  then obtain tg tw' where
    trun: "create_single_teardrop td_default_options 0 (Fin 20) (Fin 0.3) ?w = (Returned tg, tw')"
    by blast
  note inst = gradient_stops_fixed [where opts = default_options and topts = td_default_options
      and i = 0 and bs = "Fin 20" and sv = "Fin 0.3" and w = ?w]
  from inst [where g = g and w' = w'] run d so have one: "\<exists>sid did s m h.
      children g = [s, m, h] \<and>
      map_of (node_style s) ''fill'' = Some (Text (''url(#'' @ sid @ '')'')) \<and>
      map_of (node_style m) ''fill'' = Some (Text (''url(#'' @ did @ '')'')) \<and>
      defs w' =
        [LinearGradient sid
           [Stop ''0%'' [(''stop-color'', Text ''#000000''),
                         (''stop-opacity'', Number (Fin 0.515))],
            Stop ''100%'' [(''stop-color'', Text ''#000000''),
                           (''stop-opacity'', Text ''0.0'')]],
         RadialGradient did ''0.3'' ''0.3'' ''0.7''
           [Stop ''0%'' [(''stop-color'', Text ''#ffffff''),
                         (''stop-opacity'', Text ''0.0'')],
            Stop ''37%'' [(''stop-color'', Text ''#121212''),
                          (''stop-opacity'', Text ''0.014'')],
            Stop ''100%'' [(''stop-color'', Text ''#ffffff''),
                           (''stop-opacity'', Text ''0.286'')]]]"
    by simp
  from inst [where g = tg and w' = tw'] trun d so have two: "\<exists>sid did s m h.
      children tg = [s, m, h] \<and>
      map_of (node_style s) ''fill'' = Some (Text (''url(#'' @ sid @ '')'')) \<and>
      map_of (node_style m) ''fill'' = Some (Text (''url(#'' @ did @ '')'')) \<and>
      defs tw' =
        [LinearGradient sid
           [Stop ''0%'' [(''stop-color'', Text ''#000000''),
                         (''stop-opacity'', Number (Fin 0.2))],
            Stop ''100%'' [(''stop-color'', Text ''#000000''),
                           (''stop-opacity'', Text ''0.0'')]],
         RadialGradient did ''0.3'' ''0.3'' ''0.7''
           [Stop ''0%'' [(''stop-color'', Text ''#ffffff''),
                         (''stop-opacity'', Text ''0.0'')],
            Stop ''37%'' [(''stop-color'', Text ''#121212''),
                          (''stop-opacity'', Text ''0.014'')],
            Stop ''100%'' [(''stop-color'', Text ''#ffffff''),
                           (''stop-opacity'', Text ''0.286'')]]]"
    by simp
  from run one trun two show ?thesis by blast
qed

text \<open>
  C5. For every centre \<open>(x, y)\<close>, size and ratio, the path of \<^verbatim>\<open>create_teardrop_path\<close> is a
  closed contour of four cubic Bezier segments: a move to \<open>(x, y + height * 0.3)\<close> with
  \<open>height = size * teardrop_ratio\<close>, four curves, the last of which ends at that same point, and
  the closing command; the first and the last coordinate pair of the text are that point.
\<close>

theorem teardrop_path_closed:
  "(\<exists>p1 p2 p3 q1 q2 q3 r1 r2 r3 s1 s2.
      create_teardrop_path opts x y sz rotation =
        [MoveTo (x, y + sz * teardrop_ratio opts * Fin 0.3),
         CurveTo p1 p2 p3, CurveTo q1 q2 q3, CurveTo r1 r2 r3,
         CurveTo s1 s2 (x, y + sz * teardrop_ratio opts * Fin 0.3),
         ClosePath]) \<and>
   hd (path_points (create_teardrop_path opts x y sz rotation)) =
     (x, y + sz * teardrop_ratio opts * Fin 0.3) \<and>
   last (path_points (create_teardrop_path opts x y sz rotation)) =
     (x, y + sz * teardrop_ratio opts * Fin 0.3) \<and>
   length (path_points (create_teardrop_path opts x y sz rotation)) = 13"
  by (simp add: create_teardrop_path_def path_points_def Let_def)

text \<open>
  C6. For a finite \<open>shadow_angle = a\<close> the shadow is built at the position plus
  \<open>(cos (radians a) * shadow_distance, sin (radians a) * shadow_distance)\<close>: an ellipse of radii
  \<open>size * 0.6\<close> and \<open>size * 0.8\<close> there, or the teardrop path centred there. For
  \<open>drop_count = 1\<close>, \<open>drop_size = 20\<close>, \<open>size_variation = 0\<close>, \<open>area_width = area_height = 0\<close>,
  \<open>shadow_angle = 45\<close>, \<open>shadow_distance = 3\<close> (and a highlight angle that is not infinite), whatever
  the random draws, a run produces exactly one drop, at \<open>(0, 0)\<close>, of size exactly 20, whose shadow
  is offset by \<open>(cos 45\<degree> * 3, sin 45\<degree> * 3)\<close>.
\<close>

theorem shadow_offset:
  "(shadow_angle opts = Fin a \<longrightarrow>
      (\<exists>n w'. create_shadow opts x y sz w = (Returned n, w') \<and>
         el_cx n = x + Fin (cos (a * (pi / 180))) * shadow_distance opts \<and>
         el_cy n = y + Fin (sin (a * (pi / 180))) * shadow_distance opts \<and>
         el_rx n = sz * Fin 0.6 \<and> el_ry n = sz * Fin 0.8)) \<and>
   (shadow_angle topts = Fin a \<longrightarrow>
      (\<exists>n w'. create_teardrop_shadow topts x y sz rot w = (Returned n, w') \<and>
         path_d n =
           create_teardrop_path topts
             (x + Fin (cos (a * (pi / 180))) * shadow_distance topts)
             (y + Fin (sin (a * (pi / 180))) * shadow_distance topts) sz rot)) \<and>
   (drop_count opts = 1 \<and> drop_size opts = Fin 20 \<and> size_variation opts = Fin 0 \<and>
    area_width opts = Fin 0 \<and> area_height opts = Fin 0 \<and>
    shadow_angle opts = Fin 45 \<and> shadow_distance opts = Fin 3 \<and>
    \<not> is_inf (highlight_angle opts) \<longrightarrow>
      (\<exists>sh body hl w'.
         effect opts w = (Returned (), w') \<and>
         layer w' = layer w @ [Group ''Sweat Drops'' [Group ''Drop_1'' [sh, body, hl]]] \<and>
         el_cx body = Fin 0 \<and> el_cy body = Fin 0 \<and>
         el_rx body = Fin 20 * Fin 0.6 \<and> el_ry body = Fin 20 * Fin 0.8 \<and>
         el_cx sh = Fin 0 + Fin (cos (45 * (pi / 180)) * 3) \<and>
         el_cy sh = Fin 0 + Fin (sin (45 * (pi / 180)) * 3) \<and>
         el_rx sh = Fin 20 * Fin 0.6 \<and> el_ry sh = Fin 20 * Fin 0.8)) \<and>
   (drop_count topts = 1 \<and> drop_size topts = Fin 20 \<and> size_variation topts = Fin 0 \<and>
    area_width topts = Fin 0 \<and> area_height topts = Fin 0 \<and>
    shadow_angle topts = Fin 45 \<and> shadow_distance topts = Fin 3 \<and>
    \<not> is_inf (highlight_angle topts) \<longrightarrow>
      (\<exists>sh body hl rot w'.
         td_effect topts w = (Returned (), w') \<and>
         layer w' =
           layer w @ [Group ''Teardrop Sweat Drops'' [Group ''Teardrop_1'' [sh, body, hl]]] \<and>
         path_d body = create_teardrop_path topts (Fin 0) (Fin 0) (Fin 20) rot \<and>
         path_d sh =
           create_teardrop_path topts (Fin 0 + Fin (cos (45 * (pi / 180)) * 3))
             (Fin 0 + Fin (sin (45 * (pi / 180)) * 3)) (Fin 20) rot))"
proof (intro conjI impI; (elim conjE)?)
  assume "shadow_angle opts = Fin a"
  then show "\<exists>n w'. create_shadow opts x y sz w = (Returned n, w') \<and>
         el_cx n = x + Fin (cos (a * (pi / 180))) * shadow_distance opts \<and>
         el_cy n = y + Fin (sin (a * (pi / 180))) * shadow_distance opts \<and>
         el_rx n = sz * Fin 0.6 \<and> el_ry n = sz * Fin 0.8"
    by (simp add: create_shadow_eq cos_of_degrees_Fin sin_of_degrees_Fin)
next
  assume "shadow_angle topts = Fin a"
  then show "\<exists>n w'. create_teardrop_shadow topts x y sz rot w = (Returned n, w') \<and>
         path_d n =
           create_teardrop_path topts
             (x + Fin (cos (a * (pi / 180))) * shadow_distance topts)
             (y + Fin (sin (a * (pi / 180))) * shadow_distance topts) sz rot"
    by (simp add: create_teardrop_shadow_eq cos_of_degrees_Fin sin_of_degrees_Fin)
next
  assume o: "drop_count opts = 1" "drop_size opts = Fin 20" "size_variation opts = Fin 0"
    "area_width opts = Fin 0" "area_height opts = Fin 0"
    "shadow_angle opts = Fin 45" "shadow_distance opts = Fin 3"
    "\<not> is_inf (highlight_angle opts)"
  have idx: "[0 ..< nat 1] = [0]" by simp
  have lab: "str_nat (Suc 0) = ''1''" by (simp add: str_nat.simps digit_char_def)
  show "\<exists>sh body hl w'.
         effect opts w = (Returned (), w') \<and>
         layer w' = layer w @ [Group ''Sweat Drops'' [Group ''Drop_1'' [sh, body, hl]]] \<and>
         el_cx body = Fin 0 \<and> el_cy body = Fin 0 \<and>
         el_rx body = Fin 20 * Fin 0.6 \<and> el_ry body = Fin 20 * Fin 0.8 \<and>
         el_cx sh = Fin 0 + Fin (cos (45 * (pi / 180)) * 3) \<and>
         el_cy sh = Fin 0 + Fin (sin (45 * (pi / 180)) * 3) \<and>
         el_rx sh = Fin 20 * Fin 0.6 \<and> el_ry sh = Fin 20 * Fin 0.8"
    using o
    by (simp add: effect_def effect_body_def idx lab create_single_drop_eq cos_of_degrees_Fin
        sin_of_degrees_Fin minus_pyfloat_def)
next
  assume o: "drop_count topts = 1" "drop_size topts = Fin 20" "size_variation topts = Fin 0"
    "area_width topts = Fin 0" "area_height topts = Fin 0"
    "shadow_angle topts = Fin 45" "shadow_distance topts = Fin 3"
    "\<not> is_inf (highlight_angle topts)"
  have idx: "[0 ..< nat 1] = [0]" by simp
  have lab: "str_nat (Suc 0) = ''1''" by (simp add: str_nat.simps digit_char_def)
  show "\<exists>sh body hl rot w'.
         td_effect topts w = (Returned (), w') \<and>
         layer w' =
           layer w @ [Group ''Teardrop Sweat Drops'' [Group ''Teardrop_1'' [sh, body, hl]]] \<and>
         path_d body = create_teardrop_path topts (Fin 0) (Fin 0) (Fin 20) rot \<and>
         path_d sh =
           create_teardrop_path topts (Fin 0 + Fin (cos (45 * (pi / 180)) * 3))
             (Fin 0 + Fin (sin (45 * (pi / 180)) * 3)) (Fin 20) rot"
    using o
    by (simp add: td_effect_def td_effect_body_def idx lab create_single_teardrop_eq
        cos_of_degrees_Fin sin_of_degrees_Fin minus_pyfloat_def) blast
qed

theorem shadow_offset_witness:
  "(\<exists>n w'. create_shadow default_options (Fin 10) (Fin 20) (Fin 20)
       (test_svg (\<lambda>k. 1 / 2) (\<lambda>k. k)) = (Returned n, w') \<and>
      el_cx n = Fin (10 + sqrt 2 * 3 / 2) \<and> el_cy n = Fin (20 + sqrt 2 * 3 / 2) \<and>
      el_rx n = Fin 12 \<and> el_ry n = Fin 16) \<and>
   (\<exists>sh body hl w'.
      effect (default_options\<lparr>drop_count := 1, size_variation := Fin 0, area_width := Fin 0,
                area_height := Fin 0\<rparr>) (test_svg (\<lambda>k. 1 / 2) (\<lambda>k. k)) = (Returned (), w') \<and>
      layer w' = [Group ''Sweat Drops'' [Group ''Drop_1'' [sh, body, hl]]] \<and>
      el_cx body = Fin 0 \<and> el_cy body = Fin 0 \<and> el_rx body = Fin 12 \<and> el_ry body = Fin 16 \<and>
      el_cx sh = Fin (sqrt 2 * 3 / 2) \<and> el_cy sh = Fin (sqrt 2 * 3 / 2) \<and>
      el_rx sh = Fin 12 \<and> el_ry sh = Fin 16)"
proof -
  let ?w = "test_svg (\<lambda>k. 1 / 2) (\<lambda>k. k)"
  let ?o = "default_options\<lparr>drop_count := 1, size_variation := Fin 0, area_width := Fin 0,
                area_height := Fin 0\<rparr>"
  have d: "shadow_angle default_options = Fin 45" "shadow_distance default_options = Fin 3"
    by (simp_all add: default_options_def)
  from shadow_offset [where opts = default_options and a = 45 and x = "Fin 10" and y = "Fin 20"
      and sz = "Fin 20" and w = ?w, THEN conjunct1] d
  have one: "\<exists>n w'. create_shadow default_options (Fin 10) (Fin 20) (Fin 20) ?w
        = (Returned n, w') \<and>
      el_cx n = Fin (10 + sqrt 2 * 3 / 2) \<and> el_cy n = Fin (20 + sqrt 2 * 3 / 2) \<and>
      el_rx n = Fin 12 \<and> el_ry n = Fin 16"
    by (simp add: cos_45 sin_45)
  have e: "drop_count ?o = 1 \<and> drop_size ?o = Fin 20 \<and> size_variation ?o = Fin 0 \<and>
    area_width ?o = Fin 0 \<and> area_height ?o = Fin 0 \<and>
    shadow_angle ?o = Fin 45 \<and> shadow_distance ?o = Fin 3 \<and>
    \<not> is_inf (highlight_angle ?o)"
    by (simp add: default_options_def)
  from shadow_offset [where opts = ?o and w = ?w, THEN conjunct2, THEN conjunct2,
      THEN conjunct1] e
  have two: "\<exists>sh body hl w'.
      effect ?o ?w = (Returned (), w') \<and>
      layer w' = [Group ''Sweat Drops'' [Group ''Drop_1'' [sh, body, hl]]] \<and>
      el_cx body = Fin 0 \<and> el_cy body = Fin 0 \<and> el_rx body = Fin 12 \<and> el_ry body = Fin 16 \<and>
      el_cx sh = Fin (sqrt 2 * 3 / 2) \<and> el_cy sh = Fin (sqrt 2 * 3 / 2) \<and>
      el_rx sh = Fin 12 \<and> el_ry sh = Fin 16"
    by (simp add: cos_45 sin_45 test_svg_def)
  from one two show ?thesis by blast
qed

text \<open>
  C7, as amended. \<^verbatim>\<open>effect\<close> never raises and validates nothing. The body of its \<^verbatim>\<open>try\<close> block
  raises exactly when \<open>drop_count > 0\<close> and \<open>shadow_angle\<close> or \<open>highlight_angle\<close> is infinite (the
  \<^verbatim>\<open>ValueError\<close> of \<^verbatim>\<open>math.cos\<close> and \<^verbatim>\<open>math.sin\<close>, while the first drop is built); the handler
  swallows it, \<^verbatim>\<open>effect\<close> returns normally and the layer is left as it was. For every other input,
  valid or not, no error is raised and the main group with \<open>max drop_count 0\<close> drops is appended.
  The claim as stated (invalid parameters make the call fail, nothing is swallowed) fails on the
  code: see the counterexample.
\<close>

theorem errors_swallowed:
  "fst (effect opts w) = Returned () \<and>
   ((\<exists>w1. effect_body opts w = (Raised ValueError, w1)) \<longleftrightarrow>
      0 < drop_count opts \<and> (is_inf (shadow_angle opts) \<or> is_inf (highlight_angle opts))) \<and>
   (0 < drop_count opts \<and> (is_inf (shadow_angle opts) \<or> is_inf (highlight_angle opts)) \<longrightarrow>
      layer (snd (effect opts w)) = layer w) \<and>
   (\<not> (0 < drop_count opts \<and> (is_inf (shadow_angle opts) \<or> is_inf (highlight_angle opts))) \<longrightarrow>
      (\<exists>kids. layer (snd (effect opts w)) = layer w @ [Group ''Sweat Drops'' kids] \<and>
         length kids = nat (drop_count opts))) \<and>
   fst (td_effect topts w) = Returned () \<and>
   ((\<exists>w1. td_effect_body topts w = (Raised ValueError, w1)) \<longleftrightarrow>
      0 < drop_count topts \<and> (is_inf (shadow_angle topts) \<or> is_inf (highlight_angle topts))) \<and>
   (0 < drop_count topts \<and> (is_inf (shadow_angle topts) \<or> is_inf (highlight_angle topts)) \<longrightarrow>
      layer (snd (td_effect topts w)) = layer w) \<and>
   (\<not> (0 < drop_count topts \<and> (is_inf (shadow_angle topts) \<or> is_inf (highlight_angle topts))) \<longrightarrow>
      (\<exists>kids. layer (snd (td_effect topts w)) = layer w @ [Group ''Teardrop Sweat Drops'' kids] \<and>
         length kids = nat (drop_count topts)))"
proof -
  have e1: "fst (effect opts w) = Returned ()"
    using effect_cases [of opts w "fst (effect opts w)" "snd (effect opts w)"] by simp
  have e2: "(\<exists>w1. effect_body opts w = (Raised ValueError, w1)) \<longleftrightarrow>
      0 < drop_count opts \<and> (is_inf (shadow_angle opts) \<or> is_inf (highlight_angle opts))"
    by (rule effect_body_raises_iff)
  have e3: "0 < drop_count opts \<and> (is_inf (shadow_angle opts) \<or> is_inf (highlight_angle opts)) \<longrightarrow>
      layer (snd (effect opts w)) = layer w"
    by (simp add: effect_layer)
  have e4: "\<not> (0 < drop_count opts \<and> (is_inf (shadow_angle opts) \<or> is_inf (highlight_angle opts)))
    \<longrightarrow> (\<exists>kids. layer (snd (effect opts w)) = layer w @ [Group ''Sweat Drops'' kids] \<and>
         length kids = nat (drop_count opts))"
  proof
    assume n: "\<not> (0 < drop_count opts \<and>
      (is_inf (shadow_angle opts) \<or> is_inf (highlight_angle opts)))"
    have "\<exists>kids w1. effect_loop opts [0 ..< nat (drop_count opts)] (drop_size opts)
        (size_variation opts) [] w = (Returned kids, w1)"
    proof (cases "0 < drop_count opts")
      case True
      with n have "\<not> is_inf (shadow_angle opts)" "\<not> is_inf (highlight_angle opts)" by auto
      from effect_loop_returns [OF this] show ?thesis .
    next
      case False
      then have "[0 ..< nat (drop_count opts)] = []" by simp
      then show ?thesis by simp
    qed
    then obtain kids w1 where run: "effect_loop opts [0 ..< nat (drop_count opts)]
        (drop_size opts) (size_variation opts) [] w = (Returned kids, w1)" by blast
    from effect_loop_trace [OF run] have "length kids = nat (drop_count opts)" by simp
    with n run show "\<exists>kids. layer (snd (effect opts w)) = layer w @ [Group ''Sweat Drops'' kids] \<and>
         length kids = nat (drop_count opts)"
      by (simp add: effect_layer)
  qed
  have t1: "fst (td_effect topts w) = Returned ()"
    using td_effect_cases [of topts w "fst (td_effect topts w)" "snd (td_effect topts w)"]
    by simp
  have t2: "(\<exists>w1. td_effect_body topts w = (Raised ValueError, w1)) \<longleftrightarrow>
      0 < drop_count topts \<and> (is_inf (shadow_angle topts) \<or> is_inf (highlight_angle topts))"
    by (rule td_effect_body_raises_iff)
  have t3: "0 < drop_count topts \<and> (is_inf (shadow_angle topts) \<or> is_inf (highlight_angle topts))
      \<longrightarrow> layer (snd (td_effect topts w)) = layer w"
    by (simp add: td_effect_layer)
  have t4: "\<not> (0 < drop_count topts \<and>
      (is_inf (shadow_angle topts) \<or> is_inf (highlight_angle topts)))
    \<longrightarrow> (\<exists>kids. layer (snd (td_effect topts w))
          = layer w @ [Group ''Teardrop Sweat Drops'' kids] \<and>
         length kids = nat (drop_count topts))"
  proof
    assume n: "\<not> (0 < drop_count topts \<and>
      (is_inf (shadow_angle topts) \<or> is_inf (highlight_angle topts)))"
    have "\<exists>kids w1. td_effect_loop topts [0 ..< nat (drop_count topts)] (drop_size topts)
        (size_variation topts) [] w = (Returned kids, w1)"
    proof (cases "0 < drop_count topts")
      case True
      with n have "\<not> is_inf (shadow_angle topts)" "\<not> is_inf (highlight_angle topts)" by auto
      from td_effect_loop_returns [OF this] show ?thesis .
    next
      case False
      then have "[0 ..< nat (drop_count topts)] = []" by simp
      then show ?thesis by simp
    qed
    then obtain kids w1 where run: "td_effect_loop topts [0 ..< nat (drop_count topts)]
        (drop_size topts) (size_variation topts) [] w = (Returned kids, w1)" by blast
    from td_effect_loop_trace [OF run] have "length kids = nat (drop_count topts)" by simp
    with n run show "\<exists>kids. layer (snd (td_effect topts w))
          = layer w @ [Group ''Teardrop Sweat Drops'' kids] \<and>
         length kids = nat (drop_count topts)"
      by (simp add: td_effect_layer)
  qed
  from e1 e2 e3 e4 t1 t2 t3 t4 show ?thesis by blast
qed

theorem errors_swallowed_witness:
  "fst (effect (default_options\<lparr>shadow_angle := PInf\<rparr>) (test_svg (\<lambda>k. 1 / 2) (\<lambda>k. k)))
     = Returned () \<and>
   layer (snd (effect (default_options\<lparr>shadow_angle := PInf\<rparr>)
                 (test_svg (\<lambda>k. 1 / 2) (\<lambda>k. k)))) = [] \<and>
   (\<exists>kids. layer (snd (effect default_options (test_svg (\<lambda>k. 1 / 2) (\<lambda>k. k))))
              = [Group ''Sweat Drops'' kids] \<and> length kids = 5) \<and>
   layer (snd (td_effect (td_default_options\<lparr>highlight_angle := NInf\<rparr>)
                 (test_svg (\<lambda>k. 1 / 2) (\<lambda>k. k)))) = [] \<and>
   (\<exists>kids. layer (snd (td_effect td_default_options (test_svg (\<lambda>k. 1 / 2) (\<lambda>k. k))))
              = [Group ''Teardrop Sweat Drops'' kids] \<and> length kids = 5)"
proof -
  let ?w = "test_svg (\<lambda>k. 1 / 2) (\<lambda>k. k)"
  have l: "layer ?w = []" by (simp add: test_svg_def)
  note bad = errors_swallowed [where opts = "default_options\<lparr>shadow_angle := PInf\<rparr>"
      and topts = "td_default_options\<lparr>highlight_angle := NInf\<rparr>" and w = ?w]
  note good = errors_swallowed [where opts = default_options and topts = td_default_options
      and w = ?w]
  from bad have a: "fst (effect (default_options\<lparr>shadow_angle := PInf\<rparr>) ?w) = Returned ()"
    by blast
  from bad l have b: "layer (snd (effect (default_options\<lparr>shadow_angle := PInf\<rparr>) ?w)) = []"
    by (simp add: default_options_def)
  from bad l have c: "layer (snd (td_effect (td_default_options\<lparr>highlight_angle := NInf\<rparr>) ?w))
      = []"
    by (simp add: td_default_options_def)
  from good l have d: "\<exists>kids. layer (snd (effect default_options ?w))
      = [Group ''Sweat Drops'' kids] \<and> length kids = 5"
    by (simp add: default_options_def)
  from good l have e: "\<exists>kids. layer (snd (td_effect td_default_options ?w))
      = [Group ''Teardrop Sweat Drops'' kids] \<and> length kids = 5"
    by (simp add: td_default_options_def)
  from a b c d e show ?thesis by blast
qed

text \<open>
  An infinite shadow angle: the body raises \<^verbatim>\<open>ValueError\<close> after the three draws of the first
  drop, and \<^verbatim>\<open>effect\<close> returns normally with the document untouched. A negative count, a negative
  size and a variation of 2: no error at all, and an empty main group is appended.
\<close>

theorem errors_swallowed_counterexample:
  "effect_body (default_options\<lparr>shadow_angle := PInf\<rparr>) (test_svg (\<lambda>k. 1 / 2) (\<lambda>k. k))
     = (Raised ValueError, (test_svg (\<lambda>k. 1 / 2) (\<lambda>k. k))\<lparr>drawn := 3\<rparr>) \<and>
   effect (default_options\<lparr>shadow_angle := PInf\<rparr>) (test_svg (\<lambda>k. 1 / 2) (\<lambda>k. k))
     = (Returned (), (test_svg (\<lambda>k. 1 / 2) (\<lambda>k. k))\<lparr>drawn := 3\<rparr>) \<and>
   effect (default_options\<lparr>drop_count := - 1, drop_size := Fin (- 20), size_variation := Fin 2\<rparr>)
       (test_svg (\<lambda>k. 1 / 2) (\<lambda>k. k))
     = (Returned (), (test_svg (\<lambda>k. 1 / 2) (\<lambda>k. k))\<lparr>layer := [Group ''Sweat Drops'' []]\<rparr>)"
  by (simp add: effect_def effect_body_def default_options_def test_svg_def upt_conv_Cons
      create_single_drop_eq)

text \<open>
  C8, as amended. In a run with no infinite angle, the gradients added to \<^verbatim>\<open>svg.defs\<close> carry, drop
  by drop, the identifiers \<^verbatim>\<open>shadowGradient_\<close> and \<^verbatim>\<open>dropGradient_\<close> followed by the value
  \<^verbatim>\<open>random.randint(1000, 9999)\<close> returns at that draw. No collision is checked: the identifiers of
  the run are pairwise distinct exactly when the values drawn for the shadow gradients are pairwise
  distinct and the values drawn for the body gradients are. The claim as stated (distinct for
  every random sequence) fails: see the counterexample.
\<close>

theorem gradient_ids:
  "(\<not> is_inf (shadow_angle opts) \<and> \<not> is_inf (highlight_angle opts) \<longrightarrow>
      (\<exists>new. defs (snd (effect opts w)) = defs w @ new \<and>
         map gradient_id new =
           concat (map (\<lambda>j.
               [''shadowGradient_'' @
                  str_int (fst (random_randint 1000 9999 (w\<lparr>drawn := drawn w + 5 * j + 3\<rparr>))),
                ''dropGradient_'' @
                  str_int (fst (random_randint 1000 9999 (w\<lparr>drawn := drawn w + 5 * j + 4\<rparr>)))])
             [0 ..< nat (drop_count opts)]) \<and>
         (distinct (map gradient_id new) \<longleftrightarrow>
            inj_on (\<lambda>j. fst (random_randint 1000 9999 (w\<lparr>drawn := drawn w + 5 * j + 3\<rparr>)))
              {..< nat (drop_count opts)} \<and>
            inj_on (\<lambda>j. fst (random_randint 1000 9999 (w\<lparr>drawn := drawn w + 5 * j + 4\<rparr>)))
              {..< nat (drop_count opts)}))) \<and>
   (\<not> is_inf (shadow_angle topts) \<and> \<not> is_inf (highlight_angle topts) \<longrightarrow>
      (\<exists>new. defs (snd (td_effect topts w)) = defs w @ new \<and>
         map gradient_id new =
           concat (map (\<lambda>j.
               [''shadowGradient_'' @
                  str_int (fst (random_randint 1000 9999 (w\<lparr>drawn := drawn w + 6 * j + 4\<rparr>))),
                ''dropGradient_'' @
                  str_int (fst (random_randint 1000 9999 (w\<lparr>drawn := drawn w + 6 * j + 5\<rparr>)))])
             [0 ..< nat (drop_count topts)]) \<and>
         (distinct (map gradient_id new) \<longleftrightarrow>
            inj_on (\<lambda>j. fst (random_randint 1000 9999 (w\<lparr>drawn := drawn w + 6 * j + 4\<rparr>)))
              {..< nat (drop_count topts)} \<and>
            inj_on (\<lambda>j. fst (random_randint 1000 9999 (w\<lparr>drawn := drawn w + 6 * j + 5\<rparr>)))
              {..< nat (drop_count topts)})))"
proof (intro conjI impI; elim conjE)
  assume a: "\<not> is_inf (shadow_angle opts)" "\<not> is_inf (highlight_angle opts)"
  let ?n = "nat (drop_count opts)"
  let ?a = "\<lambda>j. 1000 + int (int_draws w (drawn w + 5 * j + 3) mod 9000)"
  let ?b = "\<lambda>j. 1000 + int (int_draws w (drawn w + 5 * j + 4) mod 9000)"
  from effect_runs [OF a, of w] obtain kids w1 where
    run: "effect_loop opts [0 ..< ?n] (drop_size opts) (size_variation opts) [] w
      = (Returned kids, w1)"
    and eff: "effect opts w = (Returned (), w1\<lparr>layer := layer w @ [Group ''Sweat Drops'' kids]\<rparr>)"
    by blast
  from effect_loop_defs [OF run] obtain new where
    new: "defs w1 = defs w @ new"
    "map gradient_id new =
       concat (map (\<lambda>j. [''shadowGradient_'' @ str_int (?a j), ''dropGradient_'' @ str_int (?b j)])
         [0 ..< ?n])"
    by auto
  have d: "distinct (map gradient_id new) \<longleftrightarrow> inj_on ?a {..< ?n} \<and> inj_on ?b {..< ?n}"
    unfolding new(2) by (rule distinct_id_pairs) simp_all
  from eff new d show "\<exists>new. defs (snd (effect opts w)) = defs w @ new \<and>
         map gradient_id new =
           concat (map (\<lambda>j.
               [''shadowGradient_'' @
                  str_int (fst (random_randint 1000 9999 (w\<lparr>drawn := drawn w + 5 * j + 3\<rparr>))),
                ''dropGradient_'' @
                  str_int (fst (random_randint 1000 9999 (w\<lparr>drawn := drawn w + 5 * j + 4\<rparr>)))])
             [0 ..< nat (drop_count opts)]) \<and>
         (distinct (map gradient_id new) \<longleftrightarrow>
            inj_on (\<lambda>j. fst (random_randint 1000 9999 (w\<lparr>drawn := drawn w + 5 * j + 3\<rparr>)))
              {..< nat (drop_count opts)} \<and>
            inj_on (\<lambda>j. fst (random_randint 1000 9999 (w\<lparr>drawn := drawn w + 5 * j + 4\<rparr>)))
              {..< nat (drop_count opts)})"
    by (intro exI [of _ new]) (simp add: random_randint_id)
next
  assume a: "\<not> is_inf (shadow_angle topts)" "\<not> is_inf (highlight_angle topts)"
  let ?n = "nat (drop_count topts)"
  let ?a = "\<lambda>j. 1000 + int (int_draws w (drawn w + 6 * j + 4) mod 9000)"
  let ?b = "\<lambda>j. 1000 + int (int_draws w (drawn w + 6 * j + 5) mod 9000)"
  from td_effect_runs [OF a, of w] obtain kids w1 where
    run: "td_effect_loop topts [0 ..< ?n] (drop_size topts) (size_variation topts) [] w
      = (Returned kids, w1)"
    and eff: "td_effect topts w
      = (Returned (), w1\<lparr>layer := layer w @ [Group ''Teardrop Sweat Drops'' kids]\<rparr>)"
    by blast
  from td_effect_loop_defs [OF run] obtain new where
    new: "defs w1 = defs w @ new"
    "map gradient_id new =
       concat (map (\<lambda>j. [''shadowGradient_'' @ str_int (?a j), ''dropGradient_'' @ str_int (?b j)])
         [0 ..< ?n])"
    by auto
  have d: "distinct (map gradient_id new) \<longleftrightarrow> inj_on ?a {..< ?n} \<and> inj_on ?b {..< ?n}"
    unfolding new(2) by (rule distinct_id_pairs) simp_all
  from eff new d show "\<exists>new. defs (snd (td_effect topts w)) = defs w @ new \<and>
         map gradient_id new =
           concat (map (\<lambda>j.
               [''shadowGradient_'' @
                  str_int (fst (random_randint 1000 9999 (w\<lparr>drawn := drawn w + 6 * j + 4\<rparr>))),
                ''dropGradient_'' @
                  str_int (fst (random_randint 1000 9999 (w\<lparr>drawn := drawn w + 6 * j + 5\<rparr>)))])
             [0 ..< nat (drop_count topts)]) \<and>
         (distinct (map gradient_id new) \<longleftrightarrow>
            inj_on (\<lambda>j. fst (random_randint 1000 9999 (w\<lparr>drawn := drawn w + 6 * j + 4\<rparr>)))
              {..< nat (drop_count topts)} \<and>
            inj_on (\<lambda>j. fst (random_randint 1000 9999 (w\<lparr>drawn := drawn w + 6 * j + 5\<rparr>)))
              {..< nat (drop_count topts)})"
    by (intro exI [of _ new]) (simp add: random_randint_id)
qed

text \<open>
  Two drops and a generator whose every \<^verbatim>\<open>randint\<close> gives 1234: the two shadow gradients share
  an identifier, and so do the two body gradients.
\<close>

theorem gradient_ids_counterexample:
  "map gradient_id
     (defs (snd (effect (default_options\<lparr>drop_count := 2\<rparr>)
                   (test_svg (\<lambda>k. 1 / 2) (\<lambda>k. 234))))) =
     [''shadowGradient_1234'', ''dropGradient_1234'',
      ''shadowGradient_1234'', ''dropGradient_1234''] \<and>
   \<not> distinct (map gradient_id
     (defs (snd (effect (default_options\<lparr>drop_count := 2\<rparr>)
                   (test_svg (\<lambda>k. 1 / 2) (\<lambda>k. 234))))))"
proof -
  have s: "str_int 1234 = ''1234''"
    by (simp add: str_int_def str_nat.simps digit_char_def)
  have e: "map gradient_id
     (defs (snd (effect (default_options\<lparr>drop_count := 2\<rparr>)
                   (test_svg (\<lambda>k. 1 / 2) (\<lambda>k. 234))))) =
     [''shadowGradient_1234'', ''dropGradient_1234'',
      ''shadowGradient_1234'', ''dropGradient_1234'']"
    by (simp add: effect_def effect_body_def default_options_def test_svg_def upt_conv_Cons
        create_single_drop_eq s)
  show ?thesis unfolding e by simp
qed

theorem gradient_ids_witness:
  "(\<exists>new. defs (snd (effect default_options (test_svg (\<lambda>k. 1 / 2) (\<lambda>k. k)))) = new \<and>
      length new = 10 \<and> distinct (map gradient_id new)) \<and>
   (\<exists>new. defs (snd (td_effect td_default_options (test_svg (\<lambda>k. 1 / 2) (\<lambda>k. k)))) = new \<and>
      length new = 10 \<and> distinct (map gradient_id new))"
proof -
  let ?w = "test_svg (\<lambda>k. 1 / 2) (\<lambda>k. k)"
  have w: "defs ?w = []" "drawn ?w = 0" "int_draws ?w = (\<lambda>k. k)" by (simp_all add: test_svg_def)
  have n: "nat (drop_count default_options) = 5" "nat (drop_count td_default_options) = 5"
    by (simp_all add: default_options_def td_default_options_def)
  have five: "[0 ..< 5] = [0, 1, 2, 3, 4]" by (simp add: upt_conv_Cons)
  have pre: "\<not> is_inf (shadow_angle default_options) \<and> \<not> is_inf (highlight_angle default_options)"
    "\<not> is_inf (shadow_angle td_default_options) \<and> \<not> is_inf (highlight_angle td_default_options)"
    by (simp_all add: default_options_def td_default_options_def)
  have i1: "inj_on (\<lambda>j. fst (random_randint 1000 9999 (?w\<lparr>drawn := drawn ?w + 5 * j + 3\<rparr>))) {..< 5}"
    "inj_on (\<lambda>j. fst (random_randint 1000 9999 (?w\<lparr>drawn := drawn ?w + 5 * j + 4\<rparr>))) {..< 5}"
    "inj_on (\<lambda>j. fst (random_randint 1000 9999 (?w\<lparr>drawn := drawn ?w + 6 * j + 4\<rparr>))) {..< 5}"
    "inj_on (\<lambda>j. fst (random_randint 1000 9999 (?w\<lparr>drawn := drawn ?w + 6 * j + 5\<rparr>))) {..< 5}"
    by (rule inj_onI, simp add: random_randint_id w)+
  note inst = gradient_ids [where opts = default_options and topts = td_default_options
      and w = ?w]
  from inst [THEN conjunct1, THEN mp, OF pre(1)] obtain new where
    new: "defs (snd (effect default_options ?w)) = defs ?w @ new"
      "map gradient_id new =
           concat (map (\<lambda>j.
               [''shadowGradient_'' @
                  str_int (fst (random_randint 1000 9999 (?w\<lparr>drawn := drawn ?w + 5 * j + 3\<rparr>))),
                ''dropGradient_'' @
                  str_int (fst (random_randint 1000 9999 (?w\<lparr>drawn := drawn ?w + 5 * j + 4\<rparr>)))])
             [0 ..< nat (drop_count default_options)])"
      "distinct (map gradient_id new) \<longleftrightarrow>
            inj_on (\<lambda>j. fst (random_randint 1000 9999 (?w\<lparr>drawn := drawn ?w + 5 * j + 3\<rparr>)))
              {..< nat (drop_count default_options)} \<and>
            inj_on (\<lambda>j. fst (random_randint 1000 9999 (?w\<lparr>drawn := drawn ?w + 5 * j + 4\<rparr>)))
              {..< nat (drop_count default_options)}"
    by (elim exE conjE)
  from new(2) have "length (map gradient_id new) = 10" unfolding n five by simp
  then have l: "length new = 10" by simp
  from new(3) i1(1,2) have d: "distinct (map gradient_id new)" unfolding n by simp
  from new(1) l d have one: "\<exists>new. defs (snd (effect default_options ?w)) = new \<and>
      length new = 10 \<and> distinct (map gradient_id new)"
    by (simp add: w)
  from inst [THEN conjunct2, THEN mp, OF pre(2)] obtain tnew where
    tnew: "defs (snd (td_effect td_default_options ?w)) = defs ?w @ tnew"
      "map gradient_id tnew =
           concat (map (\<lambda>j.
               [''shadowGradient_'' @
                  str_int (fst (random_randint 1000 9999 (?w\<lparr>drawn := drawn ?w + 6 * j + 4\<rparr>))),
                ''dropGradient_'' @
                  str_int (fst (random_randint 1000 9999 (?w\<lparr>drawn := drawn ?w + 6 * j + 5\<rparr>)))])
             [0 ..< nat (drop_count td_default_options)])"
      "distinct (map gradient_id tnew) \<longleftrightarrow>
            inj_on (\<lambda>j. fst (random_randint 1000 9999 (?w\<lparr>drawn := drawn ?w + 6 * j + 4\<rparr>)))
              {..< nat (drop_count td_default_options)} \<and>
            inj_on (\<lambda>j. fst (random_randint 1000 9999 (?w\<lparr>drawn := drawn ?w + 6 * j + 5\<rparr>)))
              {..< nat (drop_count td_default_options)}"
    by (elim exE conjE)
  from tnew(2) have "length (map gradient_id tnew) = 10" unfolding n five by simp
  then have tl: "length tnew = 10" by simp
  from tnew(3) i1(3,4) have td: "distinct (map gradient_id tnew)" unfolding n by simp
  from tnew(1) tl td have two: "\<exists>new. defs (snd (td_effect td_default_options ?w)) = new \<and>
      length new = 10 \<and> distinct (map gradient_id new)"
    by (simp add: w)
  from one two show ?thesis by blast
qed

text \<open>
  C9. The path data of \<^verbatim>\<open>create_teardrop_path\<close> does not depend on the rotation. A rotation other
  than 0 is attached as a rotation transform about the shape's own centre: the shadow about its
  offset centre, the body about the drop centre, the highlight about the highlight centre. With
  rotation 0 no transform is attached.
\<close>

theorem rotation_post_hoc:
  "create_teardrop_path opts x y sz rotation = create_teardrop_path opts x y sz (Fin 0) \<and>
   (\<not> is_inf (shadow_angle opts) \<longrightarrow>
      (\<exists>c s n w'.
         math_cos (math_radians (shadow_angle opts)) = Returned c \<and>
         math_sin (math_radians (shadow_angle opts)) = Returned s \<and>
         create_teardrop_shadow opts x y sz rotation w = (Returned n, w') \<and>
         path_d n =
           create_teardrop_path opts (x + c * shadow_distance opts)
             (y + s * shadow_distance opts) sz (Fin 0) \<and>
         path_transform n =
           (if rotation = Fin 0 then None
            else Some (Rotate rotation (x + c * shadow_distance opts)
                         (y + s * shadow_distance opts))))) \<and>
   (\<exists>n w'.
      create_teardrop_main opts x y sz rotation w = (n, w') \<and>
      path_d n = create_teardrop_path opts x y sz (Fin 0) \<and>
      path_transform n = (if rotation = Fin 0 then None else Some (Rotate rotation x y))) \<and>
   (\<not> is_inf (highlight_angle opts) \<longrightarrow>
      (\<exists>c s n w'.
         math_cos (math_radians (highlight_angle opts)) = Returned c \<and>
         math_sin (math_radians (highlight_angle opts)) = Returned s \<and>
         create_teardrop_highlight opts x y sz rotation w = (Returned n, w') \<and>
         path_d n =
           create_teardrop_path opts (x + c * (sz * Fin 0.2)) (y + s * (sz * Fin 0.2))
             (sz * highlight_size opts) (Fin 0) \<and>
         path_transform n =
           (if rotation = Fin 0 then None
            else Some (Rotate rotation (x + c * (sz * Fin 0.2)) (y + s * (sz * Fin 0.2))))))"
proof -
  have path: "\<And>a b c r. create_teardrop_path opts a b c r = create_teardrop_path opts a b c (Fin 0)"
    by (simp add: create_teardrop_path_def)
  have sh: "\<not> is_inf (shadow_angle opts) \<longrightarrow>
      (\<exists>c s n w'.
         math_cos (math_radians (shadow_angle opts)) = Returned c \<and>
         math_sin (math_radians (shadow_angle opts)) = Returned s \<and>
         create_teardrop_shadow opts x y sz rotation w = (Returned n, w') \<and>
         path_d n =
           create_teardrop_path opts (x + c * shadow_distance opts)
             (y + s * shadow_distance opts) sz (Fin 0) \<and>
         path_transform n =
           (if rotation = Fin 0 then None
            else Some (Rotate rotation (x + c * shadow_distance opts)
                         (y + s * shadow_distance opts))))"
    using path by (simp add: create_teardrop_shadow_eq math_cos_radians math_sin_radians
        rotate_about_def)
  have mn: "\<exists>n w'.
      create_teardrop_main opts x y sz rotation w = (n, w') \<and>
      path_d n = create_teardrop_path opts x y sz (Fin 0) \<and>
      path_transform n = (if rotation = Fin 0 then None else Some (Rotate rotation x y))"
    using path by (simp add: create_teardrop_main_eq rotate_about_def)
  have hl: "\<not> is_inf (highlight_angle opts) \<longrightarrow>
      (\<exists>c s n w'.
         math_cos (math_radians (highlight_angle opts)) = Returned c \<and>
         math_sin (math_radians (highlight_angle opts)) = Returned s \<and>
         create_teardrop_highlight opts x y sz rotation w = (Returned n, w') \<and>
         path_d n =
           create_teardrop_path opts (x + c * (sz * Fin 0.2)) (y + s * (sz * Fin 0.2))
             (sz * highlight_size opts) (Fin 0) \<and>
         path_transform n =
           (if rotation = Fin 0 then None
            else Some (Rotate rotation (x + c * (sz * Fin 0.2)) (y + s * (sz * Fin 0.2)))))"
    using path by (simp add: create_teardrop_highlight_eq math_cos_radians math_sin_radians
        rotate_about_def)
  from path sh mn hl show ?thesis by blast
qed

theorem rotation_post_hoc_witness:
  "(\<exists>c s n w'.
      math_cos (math_radians (Fin 45)) = Returned c \<and>
      math_sin (math_radians (Fin 45)) = Returned s \<and>
      create_teardrop_shadow td_default_options (Fin 10) (Fin 20) (Fin 20) (Fin 15)
        (test_svg (\<lambda>k. 1 / 2) (\<lambda>k. k)) = (Returned n, w') \<and>
      path_d n =
        create_teardrop_path td_default_options (Fin 10 + c * Fin 3) (Fin 20 + s * Fin 3)
          (Fin 20) (Fin 0) \<and>
      path_transform n = Some (Rotate (Fin 15) (Fin 10 + c * Fin 3) (Fin 20 + s * Fin 3))) \<and>
   (\<exists>n w'.
      create_teardrop_main td_default_options (Fin 10) (Fin 20) (Fin 20) (Fin 0)
        (test_svg (\<lambda>k. 1 / 2) (\<lambda>k. k)) = (n, w') \<and>
      path_d n = create_teardrop_path td_default_options (Fin 10) (Fin 20) (Fin 20) (Fin 0) \<and>
      path_transform n = None)"
proof -
  have a: "\<not> is_inf (shadow_angle td_default_options)"
    by (simp add: td_default_options_def)
  have b: "shadow_angle td_default_options = Fin 45"
    "shadow_distance td_default_options = Fin 3"
    by (simp_all add: td_default_options_def)
  from rotation_post_hoc [of td_default_options "Fin 10" "Fin 20" "Fin 20" "Fin 15"
      "test_svg (\<lambda>k. 1 / 2) (\<lambda>k. k)"] a b
  have one: "\<exists>c s n w'.
      math_cos (math_radians (Fin 45)) = Returned c \<and>
      math_sin (math_radians (Fin 45)) = Returned s \<and>
      create_teardrop_shadow td_default_options (Fin 10) (Fin 20) (Fin 20) (Fin 15)
        (test_svg (\<lambda>k. 1 / 2) (\<lambda>k. k)) = (Returned n, w') \<and>
      path_d n =
        create_teardrop_path td_default_options (Fin 10 + c * Fin 3) (Fin 20 + s * Fin 3)
          (Fin 20) (Fin 0) \<and>
      path_transform n = Some (Rotate (Fin 15) (Fin 10 + c * Fin 3) (Fin 20 + s * Fin 3))"
    by simp
  from rotation_post_hoc [of td_default_options "Fin 10" "Fin 20" "Fin 20" "Fin 0"
      "test_svg (\<lambda>k. 1 / 2) (\<lambda>k. k)"]
  have two: "\<exists>n w'.
      create_teardrop_main td_default_options (Fin 10) (Fin 20) (Fin 20) (Fin 0)
        (test_svg (\<lambda>k. 1 / 2) (\<lambda>k. k)) = (n, w') \<and>
      path_d n = create_teardrop_path td_default_options (Fin 10) (Fin 20) (Fin 20) (Fin 0) \<and>
      path_transform n = None"
    by simp
  from one two show ?thesis by blast
qed

text \<open>
  C10. In both variants every drop group of a run has exactly three children, in the order
  shadow, body, highlight: the values returned by the shadow, body and highlight builders, called
  in that order at one position and size.
\<close>

theorem drop_children_order:
  "(effect opts w = (r, w') \<longrightarrow>
      layer w' = layer w \<or>
      (\<exists>kids. layer w' = layer w @ [Group ''Sweat Drops'' kids] \<and>
         (\<forall>g \<in> set kids. \<exists>x y sz w3 s w4 m w5 h w6.
            create_shadow opts x y sz w3 = (Returned s, w4) \<and>
            create_main_drop opts x y sz w4 = (m, w5) \<and>
            create_highlight opts x y sz w5 = (Returned h, w6) \<and>
            children g = [s, m, h]))) \<and>
   (td_effect topts w = (r, w') \<longrightarrow>
      layer w' = layer w \<or>
      (\<exists>kids. layer w' = layer w @ [Group ''Teardrop Sweat Drops'' kids] \<and>
         (\<forall>g \<in> set kids. \<exists>x y sz rot w4 s w5 m w6 h w7.
            create_teardrop_shadow topts x y sz rot w4 = (Returned s, w5) \<and>
            create_teardrop_main topts x y sz rot w5 = (m, w6) \<and>
            create_teardrop_highlight topts x y sz rot w6 = (Returned h, w7) \<and>
            children g = [s, m, h])))"
proof (intro conjI impI)
  assume eff: "effect opts w = (r, w')"
  let ?P = "\<lambda>g. \<exists>x y sz w3 s w4 m w5 h w6.
            create_shadow opts x y sz w3 = (Returned s, w4) \<and>
            create_main_drop opts x y sz w4 = (m, w5) \<and>
            create_highlight opts x y sz w5 = (Returned h, w6) \<and>
            children g = [s, m, h]"
  let ?Q = "\<lambda>(seen :: nat list) kids (w :: world). \<forall>g \<in> set kids. ?P g"
  from effect_cases [OF eff] show "layer w' = layer w \<or>
      (\<exists>kids. layer w' = layer w @ [Group ''Sweat Drops'' kids] \<and> (\<forall>g \<in> set kids. ?P g))"
  proof (elim conjE disjE exE)
    fix e
    assume "layer w' = layer w"
    then show ?thesis by simp
  next
    fix kids w1
    assume run: "effect_loop opts [0 ..< nat (drop_count opts)] (drop_size opts)
             (size_variation opts) [] w = (Returned kids, w1)"
      and w': "w' = w1\<lparr>layer := layer w @ [Group ''Sweat Drops'' kids]\<rparr>"
    have "?Q ([] @ [0 ..< nat (drop_count opts)]) kids w1"
    proof (rule effect_loop_invariant [OF run, where Q = ?Q])
      show "?Q [] [] w" by simp
    next
      fix i seen kids w g w1
      assume q: "?Q seen kids w"
        and one: "create_single_drop opts i (drop_size opts) (size_variation opts) w
                    = (Returned g, w1)"
      from create_single_drop_Returned [OF one] have "?P g" by fastforce
      with q show "?Q (seen @ [i]) (kids @ [g]) w1" by simp
    qed
    with w' show ?thesis by simp
  qed
next
  assume eff: "td_effect topts w = (r, w')"
  let ?P = "\<lambda>g. \<exists>x y sz rot w4 s w5 m w6 h w7.
            create_teardrop_shadow topts x y sz rot w4 = (Returned s, w5) \<and>
            create_teardrop_main topts x y sz rot w5 = (m, w6) \<and>
            create_teardrop_highlight topts x y sz rot w6 = (Returned h, w7) \<and>
            children g = [s, m, h]"
  let ?Q = "\<lambda>(seen :: nat list) kids (w :: world). \<forall>g \<in> set kids. ?P g"
  from td_effect_cases [OF eff] show "layer w' = layer w \<or>
      (\<exists>kids. layer w' = layer w @ [Group ''Teardrop Sweat Drops'' kids] \<and>
         (\<forall>g \<in> set kids. ?P g))"
  proof (elim conjE disjE exE)
    fix e
    assume "layer w' = layer w"
    then show ?thesis by simp
  next
    fix kids w1
    assume run: "td_effect_loop topts [0 ..< nat (drop_count topts)] (drop_size topts)
             (size_variation topts) [] w = (Returned kids, w1)"
      and w': "w' = w1\<lparr>layer := layer w @ [Group ''Teardrop Sweat Drops'' kids]\<rparr>"
    have "?Q ([] @ [0 ..< nat (drop_count topts)]) kids w1"
    proof (rule td_effect_loop_invariant [OF run, where Q = ?Q])
      show "?Q [] [] w" by simp
    next
      fix i seen kids w g w1
      assume q: "?Q seen kids w"
        and one: "create_single_teardrop topts i (drop_size topts) (size_variation topts) w
                    = (Returned g, w1)"
      from create_single_teardrop_Returned [OF one] have "?P g" by fastforce
      with q show "?Q (seen @ [i]) (kids @ [g]) w1" by simp
    qed
    with w' show ?thesis by simp
  qed
qed

theorem drop_children_order_witness:
  "(\<exists>w' kids.
      effect default_options (test_svg (\<lambda>k. 1 / 2) (\<lambda>k. k)) = (Returned (), w') \<and>
      layer w' = [Group ''Sweat Drops'' kids] \<and> length kids = 5 \<and>
      (\<forall>g \<in> set kids. \<exists>x y sz w3 s w4 m w5 h w6.
          create_shadow default_options x y sz w3 = (Returned s, w4) \<and>
          create_main_drop default_options x y sz w4 = (m, w5) \<and>
          create_highlight default_options x y sz w5 = (Returned h, w6) \<and>
          children g = [s, m, h])) \<and>
   (\<exists>w' kids.
      td_effect td_default_options (test_svg (\<lambda>k. 1 / 2) (\<lambda>k. k)) = (Returned (), w') \<and>
      layer w' = [Group ''Teardrop Sweat Drops'' kids] \<and> length kids = 5 \<and>
      (\<forall>g \<in> set kids. \<exists>x y sz rot w4 s w5 m w6 h w7.
          create_teardrop_shadow td_default_options x y sz rot w4 = (Returned s, w5) \<and>
          create_teardrop_main td_default_options x y sz rot w5 = (m, w6) \<and>
          create_teardrop_highlight td_default_options x y sz rot w6 = (Returned h, w7) \<and>
          children g = [s, m, h]))"
proof -
  let ?w = "test_svg (\<lambda>k. 1 / 2) (\<lambda>k. k)"
  have lw: "layer ?w = []" by (simp add: test_svg_def)
  have a: "\<not> is_inf (shadow_angle default_options)" "\<not> is_inf (highlight_angle default_options)"
    by (simp_all add: default_options_def)
  from effect_runs [OF a, of ?w] obtain kids w1 where
    eff: "effect default_options ?w
            = (Returned (), w1\<lparr>layer := layer ?w @ [Group ''Sweat Drops'' kids]\<rparr>)"
    and len: "length kids = nat (drop_count default_options)" by blast
  from drop_children_order [where opts = default_options and w = ?w and r = "Returned ()"
      and w' = "w1\<lparr>layer := layer ?w @ [Group ''Sweat Drops'' kids]\<rparr>"] eff lw
  have "\<forall>g \<in> set kids. \<exists>x y sz w3 s w4 m w5 h w6.
          create_shadow default_options x y sz w3 = (Returned s, w4) \<and>
          create_main_drop default_options x y sz w4 = (m, w5) \<and>
          create_highlight default_options x y sz w5 = (Returned h, w6) \<and>
          children g = [s, m, h]" by simp
  with eff len lw have one: "\<exists>w' kids.
      effect default_options ?w = (Returned (), w') \<and>
      layer w' = [Group ''Sweat Drops'' kids] \<and> length kids = 5 \<and>
      (\<forall>g \<in> set kids. \<exists>x y sz w3 s w4 m w5 h w6.
          create_shadow default_options x y sz w3 = (Returned s, w4) \<and>
          create_main_drop default_options x y sz w4 = (m, w5) \<and>
          create_highlight default_options x y sz w5 = (Returned h, w6) \<and>
          children g = [s, m, h])"
    by (intro exI [of _ "w1\<lparr>layer := layer ?w @ [Group ''Sweat Drops'' kids]\<rparr>"]
          exI [of _ kids]) (simp add: default_options_def)
  have b: "\<not> is_inf (shadow_angle td_default_options)"
    "\<not> is_inf (highlight_angle td_default_options)"
    by (simp_all add: td_default_options_def)
  from td_effect_runs [OF b, of ?w] obtain tkids tw1 where
    teff: "td_effect td_default_options ?w
            = (Returned (), tw1\<lparr>layer := layer ?w @ [Group ''Teardrop Sweat Drops'' tkids]\<rparr>)"
    and tlen: "length tkids = nat (drop_count td_default_options)" by blast
  from drop_children_order [where topts = td_default_options and w = ?w and r = "Returned ()"
      and w' = "tw1\<lparr>layer := layer ?w @ [Group ''Teardrop Sweat Drops'' tkids]\<rparr>"] teff lw
  have "\<forall>g \<in> set tkids. \<exists>x y sz rot w4 s w5 m w6 h w7.
          create_teardrop_shadow td_default_options x y sz rot w4 = (Returned s, w5) \<and>
          create_teardrop_main td_default_options x y sz rot w5 = (m, w6) \<and>
          create_teardrop_highlight td_default_options x y sz rot w6 = (Returned h, w7) \<and>
          children g = [s, m, h]" by simp
  with teff tlen lw have two: "\<exists>w' kids.
      td_effect td_default_options ?w = (Returned (), w') \<and>
      layer w' = [Group ''Teardrop Sweat Drops'' kids] \<and> length kids = 5 \<and>
      (\<forall>g \<in> set kids. \<exists>x y sz rot w4 s w5 m w6 h w7.
          create_teardrop_shadow td_default_options x y sz rot w4 = (Returned s, w5) \<and>
          create_teardrop_main td_default_options x y sz rot w5 = (m, w6) \<and>
          create_teardrop_highlight td_default_options x y sz rot w6 = (Returned h, w7) \<and>
          children g = [s, m, h])"
    by (intro exI [of _ "tw1\<lparr>layer := layer ?w @ [Group ''Teardrop Sweat Drops'' tkids]\<rparr>"]
          exI [of _ tkids]) (simp add: td_default_options_def)
  from one two show ?thesis by blast
qed

end
